theory Spec2Isabelle
  imports Main "HOL-Library.AList"
begin

section \<open>Python strings\<close>

text \<open>
  A Python \<open>str\<close> is modelled as a \<open>string\<close>: the list of the bytes of its UTF-8 text.
  The character classes below are the ASCII part of Python's classes; a byte above 127
  (part of a non-ASCII code point) is in none of them. For ASCII text the functions of this
  section compute what the Python methods of the same name compute.
\<close>

definition newline :: string where
  "newline = [CHR 0x0A]"

definition isdigit_char :: "char \<Rightarrow> bool" where
  "isdigit_char c = (c \<in> set ''0123456789'')"

definition isupper_char :: "char \<Rightarrow> bool" where
  "isupper_char c = (c \<in> set ''ABCDEFGHIJKLMNOPQRSTUVWXYZ'')"

definition islower_char :: "char \<Rightarrow> bool" where
  "islower_char c = (c \<in> set ''abcdefghijklmnopqrstuvwxyz'')"

definition isalpha_char :: "char \<Rightarrow> bool" where
  "isalpha_char c = (isupper_char c \<or> islower_char c)"

text \<open>\<open>str.isspace\<close> on ASCII: tab, line feed, vertical tab, form feed, carriage return,
  the four separators 0x1C to 0x1F, and the space.\<close>

definition isspace_char :: "char \<Rightarrow> bool" where
  "isspace_char c =
     (c \<in> set [CHR 0x09, CHR 0x0A, CHR 0x0B, CHR 0x0C, CHR 0x0D,
                CHR 0x1C, CHR 0x1D, CHR 0x1E, CHR 0x1F, CHR 0x20])"

text \<open>The class \<open>\w\<close> of the \<open>re\<close> module.\<close>

definition is_word_char :: "char \<Rightarrow> bool" where
  "is_word_char c = (isalpha_char c \<or> isdigit_char c \<or> c = CHR ''_'')"

definition lower_char :: "char \<Rightarrow> char" where
  "lower_char c =
     (case map_of (zip ''ABCDEFGHIJKLMNOPQRSTUVWXYZ'' ''abcdefghijklmnopqrstuvwxyz'') c of
        Some d \<Rightarrow> d | None \<Rightarrow> c)"

definition upper_char :: "char \<Rightarrow> char" where
  "upper_char c =
     (case map_of (zip ''abcdefghijklmnopqrstuvwxyz'' ''ABCDEFGHIJKLMNOPQRSTUVWXYZ'') c of
        Some d \<Rightarrow> d | None \<Rightarrow> c)"

definition lower :: "string \<Rightarrow> string" where
  "lower s = map lower_char s"

definition strip :: "string \<Rightarrow> string" where
  "strip s = rev (dropWhile isspace_char (rev (dropWhile isspace_char s)))"

text \<open>\<open>str.isdigit\<close>: every character is a digit and there is at least one.\<close>

definition isdigit :: "string \<Rightarrow> bool" where
  "isdigit s = (s \<noteq> [] \<and> list_all isdigit_char s)"

text \<open>\<open>str.split()\<close> without argument: the maximal runs of non-whitespace characters.
  The first argument is the run read so far.\<close>

fun split_from :: "string \<Rightarrow> string \<Rightarrow> string list" where
  "split_from cur [] = (if cur = [] then [] else [cur])"
| "split_from cur (c # cs) =
     (if isspace_char c then (if cur = [] then split_from [] cs else cur # split_from [] cs)
      else split_from (cur @ [c]) cs)"

definition split :: "string \<Rightarrow> string list" where
  "split s = split_from [] s"

text \<open>\<open>str.title()\<close>: a cased character is made upper case when the character before it
  is not cased, lower case otherwise. The flag says whether the previous character is cased.\<close>

fun title_from :: "bool \<Rightarrow> string \<Rightarrow> string" where
  "title_from prev_cased [] = []"
| "title_from prev_cased (c # cs) =
     (if islower_char c then (if prev_cased then c else upper_char c) # title_from True cs
      else if isupper_char c then (if prev_cased then lower_char c else c) # title_from True cs
      else c # title_from False cs)"

definition title :: "string \<Rightarrow> string" where
  "title s = title_from False s"

text \<open>\<open>sep.join(xs)\<close>.\<close>

fun join :: "string \<Rightarrow> string list \<Rightarrow> string" where
  "join sep [] = []"
| "join sep [x] = x"
| "join sep (x # y # ys) = x @ sep @ join sep (y # ys)"

text \<open>\<open>sub in s\<close> for two strings: \<open>sub\<close> occurs in \<open>s\<close> as a contiguous piece.\<close>

fun starts_with :: "string \<Rightarrow> string \<Rightarrow> bool" where
  "starts_with [] s = True"
| "starts_with (p # ps) [] = False"
| "starts_with (p # ps) (c # cs) = (p = c \<and> starts_with ps cs)"

fun contains :: "string \<Rightarrow> string \<Rightarrow> bool" where
  "contains sub [] = (sub = [])"
| "contains sub (c # cs) = (starts_with sub (c # cs) \<or> contains sub cs)"

text \<open>Truthiness of an optional string: \<open>None\<close> and the empty string are false.\<close>

fun truthy :: "string option \<Rightarrow> bool" where
  "truthy None = False"
| "truthy (Some s) = (s \<noteq> [])"

text \<open>\<open>a or b\<close> on optional strings.\<close>

definition py_or :: "string option \<Rightarrow> string option \<Rightarrow> string option" where
  "py_or a b = (if truthy a then a else b)"


section \<open>The fragment of \<open>re\<close> used by the agents\<close>

text \<open>
  The patterns of \<open>order_status.py\<close> are sequences of single characters or character
  classes, greedy repetitions of a class (\<open>+\<close>, \<open>*\<close>, \<open>{2,}\<close>) and the word boundary
  \<open>\b\<close>. \<open>re_match\<close> is the backtracking matcher anchored at the start of the text
  (a repetition first takes as many characters as it can and gives them back one by one),
  \<open>re_search\<close> tries every start position from the left, as \<open>re.search\<close> does. Both
  return the matched text, \<open>match.group()\<close>.
\<close>

datatype cls =
    Lit char
  | Digit
  | AnyChar
  | EmailLocal
  | EmailDomain
  | EmailTld

fun in_cls :: "cls \<Rightarrow> char \<Rightarrow> bool" where
  "in_cls (Lit a) c = (c = a)"
| "in_cls Digit c = isdigit_char c"
| "in_cls AnyChar c = True"
| "in_cls EmailLocal c = (isalpha_char c \<or> isdigit_char c \<or> c \<in> set ''._%+-'')"
| "in_cls EmailDomain c = (isalpha_char c \<or> isdigit_char c \<or> c \<in> set ''.-'')"
| "in_cls EmailTld c = (isalpha_char c \<or> c = CHR ''|'')"

datatype item =
    One cls
  | AtLeast nat cls
  | WordBoundary

primrec first_some :: "('a \<Rightarrow> 'b option) \<Rightarrow> 'a list \<Rightarrow> 'b option" where
  "first_some f [] = None"
| "first_some f (x # xs) = (case f x of Some y \<Rightarrow> Some y | None \<Rightarrow> first_some f xs)"

text \<open>\<open>\b\<close> holds between the previous character (if any) and the next one (if any) when
  exactly one of them is a word character.\<close>

definition at_boundary :: "char option \<Rightarrow> string \<Rightarrow> bool" where
  "at_boundary prev s =
     ((case prev of None \<Rightarrow> False | Some p \<Rightarrow> is_word_char p)
      \<noteq> (case s of [] \<Rightarrow> False | c # _ \<Rightarrow> is_word_char c))"

fun re_match :: "item list \<Rightarrow> char option \<Rightarrow> string \<Rightarrow> string option" where
  "re_match [] prev s = Some []"
| "re_match (One c # ps) prev s =
     (case s of
        [] \<Rightarrow> None
      | x # xs \<Rightarrow> if in_cls c x then map_option (Cons x) (re_match ps (Some x) xs) else None)"
| "re_match (WordBoundary # ps) prev s =
     (if at_boundary prev s then re_match ps prev s else None)"
| "re_match (AtLeast n c # ps) prev s =
     first_some
       (\<lambda>k. map_option (append (take k s))
              (re_match ps (if k = 0 then prev else Some (s ! (k - 1))) (drop k s)))
       (rev [n ..< Suc (length (takeWhile (in_cls c) s))])"

fun re_search_from :: "item list \<Rightarrow> char option \<Rightarrow> string \<Rightarrow> string option" where
  "re_search_from ps prev [] = re_match ps prev []"
| "re_search_from ps prev (c # cs) =
     (case re_match ps prev (c # cs) of
        Some m \<Rightarrow> Some m
      | None \<Rightarrow> re_search_from ps (Some c) cs)"

definition re_search :: "item list \<Rightarrow> string \<Rightarrow> string option" where
  "re_search ps s = re_search_from ps None s"


section \<open>Local extraction (\<open>order_status.py\<close>)\<close>

text \<open>\<^verbatim>\<open>\b[A-Za-z0-9._%+-]+@[A-Za-z0-9.-]+\.[A-Z|a-z]{2,}\b\<close>\<close>

definition email_pattern :: "item list" where
  "email_pattern =
     [WordBoundary, AtLeast 1 EmailLocal, One (Lit (CHR ''@'')), AtLeast 1 EmailDomain,
      One (Lit (CHR ''.'')), AtLeast 2 EmailTld, WordBoundary]"

definition extract_email_from_text :: "string \<Rightarrow> string option" where
  "extract_email_from_text text = re_search email_pattern text"

text \<open>\<^verbatim>\<open>#W\d+\<close> and \<^verbatim>\<open>\bW\d+\b\<close>\<close>

definition order_pattern_hash :: "item list" where
  "order_pattern_hash = [One (Lit (CHR ''#'')), One (Lit (CHR ''W'')), AtLeast 1 Digit]"

definition order_pattern_bare :: "item list" where
  "order_pattern_bare = [WordBoundary, One (Lit (CHR ''W'')), AtLeast 1 Digit, WordBoundary]"

definition extract_order_number_from_text :: "string \<Rightarrow> string option" where
  "extract_order_number_from_text text =
     (case re_search order_pattern_hash text of
        Some m \<Rightarrow> Some m
      | None \<Rightarrow>
          (case re_search order_pattern_bare text of
             Some m \<Rightarrow> Some (''#'' @ m)
           | None \<Rightarrow> None))"


section \<open>StateManager (\<open>memory/manage.py\<close>)\<close>

datatype py_error = ValueError | JSONDecodeError

text \<open>\<open>_state\<close> is an \<open>OrderedDict\<close>: an association list in insertion order, in which
  assigning to a key that is present keeps its position. \<open>_state_md\<close> is the Markdown
  text of the state, \<open>None\<close> until the first entry and after a clear.\<close>

record state_manager =
  state :: "(string \<times> string) list"
  state_md :: "string option"

definition to_markdown :: "(string \<times> string) list \<Rightarrow> string" where
  "to_markdown st =
     concat (map (\<lambda>(key, val). ''### '' @ key @ newline @ newline @ val @ newline @ newline) st)"

definition new_state_manager :: state_manager where
  "new_state_manager = \<lparr>state = [], state_md = None\<rparr>"

definition add_entry :: "string \<Rightarrow> string \<Rightarrow> state_manager \<Rightarrow> py_error + state_manager" where
  "add_entry key val sm =
     (if key = [] then Inl ValueError
      else (let st = AList.update key val (state sm)
            in Inr \<lparr>state = st, state_md = Some (to_markdown st)\<rparr>))"

definition get_value :: "string \<Rightarrow> state_manager \<Rightarrow> string option" where
  "get_value key sm = map_of (state sm) key"

definition clear_state :: "state_manager \<Rightarrow> state_manager" where
  "clear_state sm = \<lparr>state = [], state_md = None\<rparr>"


section \<open>Messages and order records\<close>

text \<open>A \<open>Message\<close>; of its metadata the agent reads the \<open>entities\<close> dictionary only,
  whose values are strings.\<close>

record message =
  content :: string
  sender :: string
  recipient :: string
  metadata_entities :: "(string \<times> string) list"

text \<open>An entry of \<open>customer_orders.json\<close>. An absent \<open>Email\<close> or \<open>OrderNumber\<close> is
  the empty string and an absent product list the empty list, which are the defaults the
  agent reads them with; the other fields are optional.\<close>

record order =
  Email :: string
  OrderNumber :: string
  Status :: "string option"
  TrackingNumber :: "string option"
  CustomerName :: "string option"
  ProductsOrdered :: "string list"

text \<open>The emoji of the replies, as UTF-8.\<close>

definition mountain :: string where
  "mountain = [CHR 0xF0, CHR 0x9F, CHR 0x8F, CHR 0x94, CHR 0xEF, CHR 0xB8, CHR 0x8F]"

definition star :: string where
  "star = [CHR 0xF0, CHR 0x9F, CHR 0x8C, CHR 0x9F]"

definition clipboard :: string where
  "clipboard = [CHR 0xF0, CHR 0x9F, CHR 0x93, CHR 0x8B]"

definition envelope :: string where
  "envelope = [CHR 0xF0, CHR 0x9F, CHR 0x93, CHR 0xA7]"

definition backpack :: string where
  "backpack = [CHR 0xF0, CHR 0x9F, CHR 0x8E, CHR 0x92]"

definition bar_chart :: string where
  "bar_chart = [CHR 0xF0, CHR 0x9F, CHR 0x93, CHR 0x8A]"

definition truck :: string where
  "truck = [CHR 0xF0, CHR 0x9F, CHR 0x9A, CHR 0x9A]"

definition package :: string where
  "package = [CHR 0xF0, CHR 0x9F, CHR 0x93, CHR 0xA6]"


section \<open>OrderStatusAgent (\<open>agents/delegates/order_status.py\<close>)\<close>

text \<open>The agent object: its name, the orders loaded at construction and its StateManager.\<close>

record agent =
  name :: string
  orders_data :: "order list"
  manager :: state_manager

text \<open>What a call did besides returning: the calls of the order lookup with their
  result, the calls of the model-based extraction, and the operations on the StateManager,
  in the order in which they happened.\<close>

datatype event =
    FindOrder string string "order option"
  | ExtractOrderInfo string
  | ClearState
  | AddEntry string string

record outcome =
  reply :: message
  self_after :: agent
  events :: "event list"

definition find_order :: "order list \<Rightarrow> string \<Rightarrow> string \<Rightarrow> order option" where
  "find_order orders email order_number =
     List.find (\<lambda>ord. lower (Email ord) = lower email \<and> OrderNumber ord = order_number) orders"

definition not_found_msg :: "string \<Rightarrow> string \<Rightarrow> string" where
  "not_found_msg order_number email =
     mountain @ '' I couldn't find order **'' @ order_number @ ''** for `'' @ email
     @ ''` in our system. ''
     @ newline @ newline @ ''Could you double-check your order number? Our order numbers typically ''
     @ ''look like #W001, #W002, etc. You can also try a different email if you ''
     @ ''used multiple addresses.'' @ newline @ newline @ ''Onward into the unknown! '' @ star"

definition status_message :: "order \<Rightarrow> string \<Rightarrow> string \<Rightarrow> string" where
  "status_message ord email order_number =
     (let status = (case Status ord of None \<Rightarrow> ''unknown'' | Some s \<Rightarrow> s);
          tracking_number = TrackingNumber ord;
          customer_name = (case CustomerName ord of None \<Rightarrow> ''valued customer'' | Some n \<Rightarrow> n);
          products = ProductsOrdered ord;
          tracking_info =
            (if truthy tracking_number
             then newline @ package @ '' Track your package: ''
                  @ ''https://tools.usps.com/go/TrackConfirmAction?tLabels='' @ the tracking_number
             else [])
      in mountain @ '' Hello '' @ customer_name @ ''! Here's your order status:'' @ newline @ newline
         @ clipboard @ '' Order: '' @ order_number @ newline
         @ envelope @ '' Email: '' @ email @ newline
         @ backpack @ '' Products: '' @ join '', '' products @ newline
         @ bar_chart @ '' Status: '' @ title status @ newline
         @ (if truthy tracking_number
            then truck @ '' Tracking: '' @ the tracking_number @ tracking_info else [])
         @ newline @ newline
         @ star @ '' Thanks for choosing Adventure Outfitters! Onward into the unknown! '' @ mountain)"

definition email_msg :: "string \<Rightarrow> string" where
  "email_msg email =
     mountain @ '' Got it! I have your email: '' @ email @ ''. Now I need ''
     @ ''your order number (like #W001, #W002, etc.) to find your gear! '' @ star"

definition order_msg :: "string \<Rightarrow> string" where
  "order_msg order_number =
     mountain @ '' Perfect! I have your order number: '' @ order_number @ ''. ''
     @ ''Now I need the email address associated with this order. '' @ star"

definition invalid_order_msg :: "string \<Rightarrow> string" where
  "invalid_order_msg stored_email =
     mountain @ '' I have your email ('' @ stored_email @ '') but that doesn't look like ''
     @ ''one of our order numbers. Our order numbers start with 'W' and look ''
     @ ''like #W001, #W002, etc. Could you check your order confirmation email ''
     @ ''for the correct format? '' @ star"

definition email_needed_msg :: "string \<Rightarrow> string" where
  "email_needed_msg stored_order =
     mountain @ '' I have your order number ('' @ stored_order @ '') but I need a valid ''
     @ ''email address to look up your order. Could you provide the email ''
     @ ''you used when placing the order? '' @ star"

definition instructions_msg :: string where
  "instructions_msg =
     mountain @ '' To check your order status, I need your email address and order ''
     @ ''number. You can say something like: 'Check order #W001 for ''
     @ ''john.doe@example.com' '' @ star"

definition missing_email_msg :: "string \<Rightarrow> string" where
  "missing_email_msg final_order =
     mountain @ '' I have your order number ('' @ final_order @ '') but I still need ''
     @ ''your email address. What email did you use for this order? '' @ star"

definition missing_order_msg :: "string \<Rightarrow> string" where
  "missing_order_msg final_email =
     mountain @ '' I have your email ('' @ final_email @ '') but I still need your ''
     @ ''order number. What's your order number? '' @ star"

definition lookup_error_msg :: string where
  "lookup_error_msg =
     mountain @ '' I encountered an issue while looking up your order. Please try ''
     @ ''again or contact our support team. Onward into the unknown! '' @ star"

text \<open>Every reply of the agent is addressed to the coordinator.\<close>

definition respond :: "agent \<Rightarrow> string \<Rightarrow> message" where
  "respond self text =
     \<lparr>content = text, sender = name self, recipient = ''AdventureOutfittersAgent'',
      metadata_entities = []\<rparr>"

text \<open>\<open>_generate_order_response\<close>: the lookup, and the clearing of the state on the
  success path only.\<close>

definition generate_order_response :: "agent \<Rightarrow> string \<Rightarrow> string \<Rightarrow> outcome" where
  "generate_order_response self email order_number =
     (case find_order (orders_data self) email order_number of
        None \<Rightarrow>
          \<lparr>reply = respond self (not_found_msg order_number email),
           self_after = self,
           events = [FindOrder email order_number None]\<rparr>
      | Some ord \<Rightarrow>
          \<lparr>reply = respond self (status_message ord email order_number),
           self_after = self\<lparr>manager := clear_state (manager self)\<rparr>,
           events = [FindOrder email order_number (Some ord), ClearState]\<rparr>)"


subsection \<open>Extraction by the language model\<close>

text \<open>
  The collaborators of \<open>extract_order_info\<close> are inputs of the model. \<open>llm_outcome\<close> is
  what building the prompt and calling \<open>llm_adapter.chat\<close> gave on this turn: an exception,
  or a response with its \<open>success\<close> flag (false when the key is missing) and its content.
  \<open>json_loads\<close> stands for \<open>json.loads\<close> on a text that is a JSON object: the dictionary
  it returns, with the keys whose value is a string, or \<open>None\<close> when it raises
  \<open>JSONDecodeError\<close>.
\<close>

datatype llm_outcome =
    ChatRaised
  | ChatResponse bool string

type_synonym json_loads = "string \<Rightarrow> (string \<times> string) list option"

definition ends_with :: "string \<Rightarrow> string \<Rightarrow> bool" where
  "ends_with suffix s = starts_with (rev suffix) (rev s)"

text \<open>\<^verbatim>\<open>\{.*\}\<close> with \<open>re.DOTALL\<close>\<close>

definition json_pattern :: "item list" where
  "json_pattern = [One (Lit (CHR ''{'')), AtLeast 0 AnyChar, One (Lit (CHR ''}''))]"

text \<open>The inner \<open>try\<close> block: \<open>Inl\<close> is an exception raised inside it.\<close>

definition parse_order_extraction ::
  "json_loads \<Rightarrow> string \<Rightarrow> py_error + (string option \<times> string option)" where
  "parse_order_extraction loads response_text =
     (if starts_with ''{'' response_text \<and> ends_with ''}'' response_text then
        (case loads response_text of
           None \<Rightarrow> Inl JSONDecodeError
         | Some out_dict \<Rightarrow> Inr (map_of out_dict ''email'', map_of out_dict ''order_number''))
      else
        (case re_search json_pattern response_text of
           Some json_match \<Rightarrow>
             (case loads json_match of
                None \<Rightarrow> Inl JSONDecodeError
              | Some out_dict \<Rightarrow> Inr (map_of out_dict ''email'', map_of out_dict ''order_number''))
         | None \<Rightarrow> Inr (None, None)))"

definition extract_order_info ::
  "json_loads \<Rightarrow> llm_outcome \<Rightarrow> string option \<times> string option" where
  "extract_order_info loads llm =
     (case llm of
        ChatRaised \<Rightarrow> (None, None)
      | ChatResponse success response_text \<Rightarrow>
          if success then
            (case parse_order_extraction loads response_text of
               Inl e \<Rightarrow> (None, None)
             | Inr r \<Rightarrow> r)
          else (None, None))"

subsection \<open>The turn\<close>

text \<open>The reply of the \<open>except\<close> clause of \<open>process\<close>; the state is as the failing
  statement left it.\<close>

definition lookup_error :: "agent \<Rightarrow> event list \<Rightarrow> outcome" where
  "lookup_error self evs =
     \<lparr>reply = respond self lookup_error_msg, self_after = self, events = evs\<rparr>"

definition store_and_reply ::
  "agent \<Rightarrow> string \<Rightarrow> string \<Rightarrow> string \<Rightarrow> outcome" where
  "store_and_reply self key val text =
     (case add_entry key val (manager self) of
        Inl e \<Rightarrow> lookup_error self []
      | Inr sm \<Rightarrow>
          \<lparr>reply = respond self text, self_after = self\<lparr>manager := sm\<rparr>,
           events = [AddEntry key val]\<rparr>)"

definition just_reply :: "agent \<Rightarrow> event list \<Rightarrow> string \<Rightarrow> outcome" where
  "just_reply self evs text = \<lparr>reply = respond self text, self_after = self, events = evs\<rparr>"

definition after_events :: "event list \<Rightarrow> outcome \<Rightarrow> outcome" where
  "after_events evs out = out\<lparr>events := evs @ events out\<rparr>"

text \<open>
  \<open>process\<close>, branch by branch in the order of the source. Every \<open>the\<close> below is applied
  to a value that the condition of its branch has tested to be true, hence to a \<open>Some\<close>.
\<close>

definition process :: "json_loads \<Rightarrow> llm_outcome \<Rightarrow> agent \<Rightarrow> message \<Rightarrow> outcome" where
  "process loads llm self msg =
     (let query = content msg;
          entities = metadata_entities msg;
          email_from_entities = map_of entities ''Email'';
          order_from_entities = map_of entities ''OrderNumber'';
          email_from_text = extract_email_from_text query;
          order_from_text = extract_order_number_from_text query;
          email_from_current = py_or email_from_entities email_from_text;
          order_from_current = py_or order_from_entities order_from_text;
          stored_email = get_value ''email'' (manager self);
          stored_order = get_value ''order_number'' (manager self)
      in
        if truthy email_from_current \<and> truthy order_from_current then
          generate_order_response self (the email_from_current) (the order_from_current)
        else if truthy stored_email \<and> truthy order_from_current then
          generate_order_response self (the stored_email) (the order_from_current)
        else if truthy stored_order \<and> truthy email_from_current then
          generate_order_response self (the email_from_current) (the stored_order)
        else if truthy email_from_current \<and> \<not> truthy order_from_current
                \<and> CHR ''@'' \<in> set query \<and> length (split query) = 1 then
          store_and_reply self ''email'' (the email_from_current)
            (email_msg (the email_from_current))
        else if truthy order_from_current \<and> \<not> truthy email_from_current then
          store_and_reply self ''order_number'' (the order_from_current)
            (order_msg (the order_from_current))
        else if truthy stored_email \<and> \<not> truthy order_from_current
                \<and> \<not> truthy email_from_current
                \<and> (isdigit (strip query) \<or> list_ex isdigit_char query) then
          just_reply self [] (invalid_order_msg (the stored_email))
        else if truthy stored_order \<and> \<not> truthy email_from_current
                \<and> \<not> truthy order_from_current then
          just_reply self [] (email_needed_msg (the stored_order))
        else
          (let asked = (\<not> truthy email_from_current \<and> \<not> truthy order_from_current);
               extracted = (if asked then extract_order_info loads llm else (None, None));
               evs = (if asked then [ExtractOrderInfo query] else []);
               email_from_current' = (if asked then py_or email_from_current (fst extracted)
                                      else email_from_current);
               order_from_current' = (if asked then py_or order_from_current (snd extracted)
                                      else order_from_current);
               final_email = py_or email_from_current' stored_email;
               final_order = py_or order_from_current' stored_order
           in
             if truthy final_email \<and> truthy final_order then
               after_events evs (generate_order_response self (the final_email) (the final_order))
             else if \<not> truthy final_email \<and> \<not> truthy final_order then
               just_reply self evs instructions_msg
             else if \<not> truthy final_email then
               just_reply self evs (missing_email_msg (the final_order))
             else
               just_reply self evs (missing_order_msg (the final_email))))"

text \<open>A conversation: the turns in order, each with what the model would answer on it.\<close>

record turn =
  turn_llm :: llm_outcome
  turn_message :: message

fun run :: "json_loads \<Rightarrow> agent \<Rightarrow> turn list \<Rightarrow> outcome list" where
  "run loads self [] = []"
| "run loads self (t # ts) =
     (let out = process loads (turn_llm t) self (turn_message t)
      in out # run loads (self_after out) ts)"

text \<open>The agent after the turns.\<close>

fun agent_after :: "json_loads \<Rightarrow> agent \<Rightarrow> turn list \<Rightarrow> agent" where
  "agent_after loads self [] = self"
| "agent_after loads self (t # ts) =
     agent_after loads (self_after (process loads (turn_llm t) self (turn_message t))) ts"

text \<open>The agent as constructed: an empty StateManager.\<close>

definition new_agent :: "string \<Rightarrow> order list \<Rightarrow> agent" where
  "new_agent nm orders = \<lparr>name = nm, orders_data = orders, manager = new_state_manager\<rparr>"


text \<open>The values \<open>email_from_current\<close> and \<open>order_from_current\<close> that \<open>process\<close>
  computes first for a message: the coordinator's entity when it is true, else the text
  match.\<close>

definition current_email :: "message \<Rightarrow> string option" where
  "current_email msg =
     py_or (map_of (metadata_entities msg) ''Email'') (extract_email_from_text (content msg))"

definition current_order :: "message \<Rightarrow> string option" where
  "current_order msg =
     py_or (map_of (metadata_entities msg) ''OrderNumber'')
       (extract_order_number_from_text (content msg))"

text \<open>Reading the log of a turn: the lookup found an order, the lookup found none, the
  state was cleared, the model-based extraction was called.\<close>

fun is_found :: "event \<Rightarrow> bool" where
  "is_found (FindOrder e n (Some ord)) = True"
| "is_found ev = False"

fun is_not_found :: "event \<Rightarrow> bool" where
  "is_not_found (FindOrder e n None) = True"
| "is_not_found ev = False"

fun is_lookup :: "event \<Rightarrow> bool" where
  "is_lookup (FindOrder e n r) = True"
| "is_lookup ev = False"

fun is_extraction :: "event \<Rightarrow> bool" where
  "is_extraction (ExtractOrderInfo q) = True"
| "is_extraction ev = False"

definition found :: "outcome \<Rightarrow> bool" where
  "found out = list_ex is_found (events out)"

definition not_found :: "outcome \<Rightarrow> bool" where
  "not_found out = list_ex is_not_found (events out)"

definition lookup_invoked :: "outcome \<Rightarrow> bool" where
  "lookup_invoked out = list_ex is_lookup (events out)"

definition extraction_invoked :: "outcome \<Rightarrow> bool" where
  "extraction_invoked out = list_ex is_extraction (events out)"

definition cleared :: "outcome \<Rightarrow> bool" where
  "cleared out = (ClearState \<in> set (events out))"


section \<open>ConversationMemory (\<open>memory/conversation.py\<close>)\<close>

text \<open>The values held by the dictionaries of the memory (\<open>Dict[str, Any]\<close>), with Python's
  truth value. A dictionary is an association list, read with \<open>.get\<close>.\<close>

datatype pyval =
    PNone
  | PBool bool
  | PInt int
  | PStr string
  | PList "pyval list"
  | PDict "(string \<times> pyval) list"

type_synonym pydict = "(string \<times> pyval) list"

fun py_true :: "pyval \<Rightarrow> bool" where
  "py_true PNone = False"
| "py_true (PBool b) = b"
| "py_true (PInt n) = (n \<noteq> 0)"
| "py_true (PStr s) = (s \<noteq> [])"
| "py_true (PList xs) = (xs \<noteq> [])"
| "py_true (PDict d) = (d \<noteq> [])"

definition dict_get_default :: "pydict \<Rightarrow> string \<Rightarrow> pyval \<Rightarrow> pyval" where
  "dict_get_default d key dflt = (case map_of d key of None \<Rightarrow> dflt | Some v \<Rightarrow> v)"

definition dict_get :: "pydict \<Rightarrow> string \<Rightarrow> pyval" where
  "dict_get d key = dict_get_default d key PNone"

record interaction =
  timestamp :: string
  intent :: string
  query :: string
  entities :: pydict
  agent_used :: string
  key_info :: pydict

record conversation_memory =
  conversation_context :: pydict
  recent_interactions :: "interaction list"
  max_recent_interactions :: nat

definition new_conversation_memory :: conversation_memory where
  "new_conversation_memory =
     \<lparr>conversation_context = [], recent_interactions = [], max_recent_interactions = 5\<rparr>"

text \<open>The slice \<open>xs[-n:]\<close>: the last \<open>n\<close> elements, and the whole list when \<open>n\<close> is 0.\<close>

definition slice_last :: "nat \<Rightarrow> 'a list \<Rightarrow> 'a list" where
  "slice_last n xs = (if n = 0 then xs else drop (length xs - n) xs)"

text \<open>\<open>_update_context\<close> reads the new interaction and assigns keys of the context; it
  does not read the history.\<close>

definition update_context :: "interaction \<Rightarrow> pydict \<Rightarrow> pydict" where
  "update_context i ctx =
     (let ctx1 = (if py_true (dict_get (entities i) ''Email'')
                  then AList.update ''customer_email'' (dict_get (entities i) ''Email'') ctx
                  else ctx)
      in
        if intent i = ''ORDER_STATUS'' \<and> key_info i \<noteq> [] then
          (let order_info =
                 PDict [(''order_number'', dict_get (key_info i) ''order_number''),
                        (''customer_name'', dict_get (key_info i) ''customer_name''),
                        (''products'', dict_get_default (key_info i) ''products'' (PList [])),
                        (''status'', dict_get (key_info i) ''status''),
                        (''last_checked'', PStr (timestamp i))];
               ctx2 = AList.update ''last_order_lookup'' order_info ctx1
           in if py_true (dict_get (key_info i) ''products'')
              then AList.update ''recent_products'' (dict_get (key_info i) ''products'') ctx2
              else ctx2)
        else if intent i = ''PRODUCT_RECOMMENDATION'' \<and> key_info i \<noteq> [] then
          (if py_true (dict_get (key_info i) ''products_mentioned'')
           then AList.update ''recent_products'' (dict_get (key_info i) ''products_mentioned'') ctx1
           else ctx1)
        else if intent i = ''EARLY_RISERS_PROMOTION'' \<and> key_info i \<noteq> [] then
          (if py_true (dict_get (key_info i) ''promo_code'')
           then AList.update ''last_promo_code'' (dict_get (key_info i) ''promo_code'') ctx1
           else ctx1)
        else ctx1)"

text \<open>The arguments of a call of \<open>add_interaction\<close>, with the time \<open>datetime.now()\<close> gave
  it, and the turn record the call builds (\<open>key_info or {}\<close>).\<close>

record add_call =
  call_time :: string
  call_intent :: string
  call_query :: string
  call_entities :: pydict
  call_agent_used :: string
  call_key_info :: "pydict option"

definition interaction_of :: "add_call \<Rightarrow> interaction" where
  "interaction_of c =
     \<lparr>timestamp = call_time c, intent = call_intent c, query = call_query c,
      entities = call_entities c, agent_used = call_agent_used c,
      key_info = (case call_key_info c of None \<Rightarrow> [] | Some k \<Rightarrow> k)\<rparr>"

definition add_interaction :: "add_call \<Rightarrow> conversation_memory \<Rightarrow> conversation_memory" where
  "add_interaction c mem =
     (let i = interaction_of c;
          appended = recent_interactions mem @ [i];
          kept = (if length appended > max_recent_interactions mem
                  then slice_last (max_recent_interactions mem) appended
                  else appended)
      in mem\<lparr>recent_interactions := kept,
              conversation_context := update_context i (conversation_context mem)\<rparr>)"

definition clear_context :: "conversation_memory \<Rightarrow> conversation_memory" where
  "clear_context mem = mem\<lparr>conversation_context := [], recent_interactions := []\<rparr>"

definition get_full_context :: "conversation_memory \<Rightarrow> pydict \<times> interaction list" where
  "get_full_context mem = (conversation_context mem, recent_interactions mem)"

text \<open>A sequence of calls, oldest first.\<close>

fun add_interactions :: "add_call list \<Rightarrow> conversation_memory \<Rightarrow> conversation_memory" where
  "add_interactions [] mem = mem"
| "add_interactions (c # cs) mem = add_interactions cs (add_interaction c mem)"

text \<open>The keys of the context that \<open>_update_context\<close> assigns for an interaction, condition
  by condition as in the source.\<close>

definition assigned_keys :: "interaction \<Rightarrow> string list" where
  "assigned_keys i =
     (if py_true (dict_get (entities i) ''Email'') then [''customer_email''] else [])
     @ (if intent i = ''ORDER_STATUS'' \<and> key_info i \<noteq> [] then
          ''last_order_lookup''
          # (if py_true (dict_get (key_info i) ''products'') then [''recent_products''] else [])
        else if intent i = ''PRODUCT_RECOMMENDATION'' \<and> key_info i \<noteq> [] then
          (if py_true (dict_get (key_info i) ''products_mentioned'')
           then [''recent_products''] else [])
        else if intent i = ''EARLY_RISERS_PROMOTION'' \<and> key_info i \<noteq> [] then
          (if py_true (dict_get (key_info i) ''promo_code'') then [''last_promo_code''] else [])
        else [])"



section \<open>Notions used in the statements\<close>

text \<open>The model-based extraction has nothing to give: building the prompt or the call
  raised, the response is not a success, its content holds no JSON object, or \<open>json.loads\<close>
  rejects the object.\<close>

definition extraction_unavailable :: "json_loads \<Rightarrow> llm_outcome \<Rightarrow> bool" where
  "extraction_unavailable loads llm =
     (case llm of
        ChatRaised \<Rightarrow> True
      | ChatResponse success response_text \<Rightarrow>
          \<not> success
          \<or> (if starts_with ''{'' response_text \<and> ends_with ''}'' response_text
              then loads response_text = None
              else (case re_search json_pattern response_text of
                      None \<Rightarrow> True
                    | Some json_match \<Rightarrow> loads json_match = None)))"


section \<open>Data of the tests\<close>

text \<open>The two customers of \<open>tests/test_order_status_flows.py\<close>, a message as the
  coordinator sends it (the query and the entities it extracted), and a turn on which the
  model call fails.\<close>

definition order_W001 :: order where
  "order_W001 =
     \<lparr>Email = ''john.doe@example.com'', OrderNumber = ''#W001'', Status = Some ''delivered'',
      TrackingNumber = Some ''TRK123456789'', CustomerName = Some ''John Doe'',
      ProductsOrdered = [''SOBP001'', ''SOWB004'']\<rparr>"

definition order_W007 :: order where
  "order_W007 =
     \<lparr>Email = ''ethan.harris@example.com'', OrderNumber = ''#W007'', Status = Some ''fulfilled'',
      TrackingNumber = None, CustomerName = Some ''Ethan Harris'',
      ProductsOrdered = [''SOBP001'', ''SOSB006'']\<rparr>"

definition test_agent :: agent where
  "test_agent = new_agent ''OrderStatusAgent'' [order_W001, order_W007]"

definition customer_message :: "string \<Rightarrow> (string \<times> string) list \<Rightarrow> message" where
  "customer_message q ents =
     \<lparr>content = q, sender = ''AdventureOutfittersAgent'', recipient = ''OrderStatusAgent'',
      metadata_entities = ents\<rparr>"

definition model_down :: llm_outcome where
  "model_down = ChatResponse False []"

definition customer_turn :: "string \<Rightarrow> turn" where
  "customer_turn q = \<lparr>turn_llm = model_down, turn_message = customer_message q []\<rparr>"

text \<open>A \<open>json.loads\<close> that rejects every text.\<close>

definition loads_rejects :: json_loads where
  "loads_rejects text = None"

text \<open>The agent after the customer has sent an e-mail address alone.\<close>

definition agent_with_email :: "string \<Rightarrow> agent" where
  "agent_with_email email = agent_after loads_rejects test_agent [customer_turn email]"

text \<open>The conversation of \<open>test_email_first_then_invalid_order_then_valid\<close>, with an
  order number that does not exist before the right one.\<close>

definition retry_conversation :: "turn list" where
  "retry_conversation =
     map customer_turn [''ethan.harris@example.com'', ''677623'', ''#W999'', ''#W007'']"


text \<open>Calls of \<open>add_interaction\<close> as the coordinator makes them: after the order of
  \<open>ethan.harris@example.com\<close> was found, after an order-status turn that only carried an
  e-mail address (its reply holds no order number, name, product or status, so that
  \<open>key_info\<close> holds the entities only), and after turns of unknown intent.\<close>

definition order_lookup_call :: add_call where
  "order_lookup_call =
     \<lparr>call_time = ''2025-01-01T10:00:00'', call_intent = ''ORDER_STATUS'',
      call_query = ''#W007'',
      call_entities = [(''OrderNumber'', PStr ''#W007'')],
      call_agent_used = ''OrderStatusAgent'',
      call_key_info = Some
        [(''order_number'', PStr ''#W007''), (''customer_name'', PStr ''Ethan Harris''),
         (''products'', PList [PStr ''SOBP001'', PStr ''SOSB006'']),
         (''status'', PStr ''fulfilled''),
         (''entities'', PDict [(''OrderNumber'', PStr ''#W007'')])]\<rparr>"

definition email_in_sentence_call :: add_call where
  "email_in_sentence_call =
     \<lparr>call_time = ''2025-01-01T10:05:00'', call_intent = ''ORDER_STATUS'',
      call_query = ''my email is ethan.harris@example.com'',
      call_entities = [(''Email'', PStr ''ethan.harris@example.com'')],
      call_agent_used = ''OrderStatusAgent'',
      call_key_info = Some
        [(''entities'', PDict [(''Email'', PStr ''ethan.harris@example.com'')])]\<rparr>"

definition unknown_call :: "string \<Rightarrow> add_call" where
  "unknown_call q =
     \<lparr>call_time = ''2025-01-01T11:00:00'', call_intent = ''UNKNOWN'', call_query = q,
      call_entities = [], call_agent_used = ''None'', call_key_info = Some []\<rparr>"

definition small_talk :: "add_call list" where
  "small_talk = map unknown_call [''hi'', ''how are you'', ''nice'', ''ok'', ''thanks'', ''bye'']"


section \<open>Properties of the order-status dialogue\<close>


subsection \<open>The shape of a turn\<close>

text \<open>Every turn ends in one of nine ways; a property of all nine holds of \<open>process\<close>.\<close>

lemma process_shape:
  assumes "\<And>e n. P (generate_order_response self e n)"
    and "\<And>e n evs. evs = [] \<or> evs = [ExtractOrderInfo (content msg)] \<Longrightarrow>
           P (after_events evs (generate_order_response self e n))"
    and "\<And>v. P (store_and_reply self ''email'' v (email_msg v))"
    and "\<And>v. P (store_and_reply self ''order_number'' v (order_msg v))"
    and "\<And>a. P (just_reply self [] (invalid_order_msg a))"
    and "\<And>b. P (just_reply self [] (email_needed_msg b))"
    and "\<And>evs. evs = [] \<or> evs = [ExtractOrderInfo (content msg)] \<Longrightarrow>
           P (just_reply self evs instructions_msg)"
    and "\<And>evs b. evs = [] \<or> evs = [ExtractOrderInfo (content msg)] \<Longrightarrow>
           P (just_reply self evs (missing_email_msg b))"
    and "\<And>evs a. evs = [] \<or> evs = [ExtractOrderInfo (content msg)] \<Longrightarrow>
           P (just_reply self evs (missing_order_msg a))"
  shows "P (process loads llm self msg)"
  unfolding process_def Let_def
  using assms by simp

lemma msg_distinct:
  "status_message ord e n \<noteq> invalid_order_msg a"
  "status_message ord e n \<noteq> email_needed_msg b"
  "email_msg v \<noteq> invalid_order_msg a"
  "email_msg v \<noteq> email_needed_msg b"
  "order_msg v \<noteq> invalid_order_msg a"
  "order_msg v \<noteq> email_needed_msg b"
  by (simp_all add: status_message_def invalid_order_msg_def email_needed_msg_def email_msg_def
      order_msg_def Let_def mountain_def)

lemma run_nth:
  "i < length ts \<Longrightarrow>
   run loads self ts ! i =
     process loads (turn_llm (ts ! i)) (agent_after loads self (take i ts)) (turn_message (ts ! i))"
proof (induction ts arbitrary: self i)
  case Nil
  then show ?case by simp
next
  case (Cons t ts)
  then show ?case by (cases i) (simp_all add: Let_def)
qed

subsection \<open>Clearing the state\<close>

lemma process_state_effect:
  fixes loads :: json_loads and llm :: llm_outcome and self :: agent and msg :: message
  defines "out \<equiv> process loads llm self msg"
  shows "(cleared out \<longleftrightarrow> found out) \<and>
     (found out \<longrightarrow> manager (self_after out) = new_state_manager) \<and>
     (\<not> found out \<longrightarrow>
        (manager (self_after out) = manager self \<or>
         (\<exists>k v. events out = [AddEntry k v] \<and>
                add_entry k v (manager self) = Inr (manager (self_after out))))) \<and>
     (not_found out \<longrightarrow> manager (self_after out) = manager self) \<and>
     (content (reply out) = invalid_order_msg a \<longrightarrow> manager (self_after out) = manager self) \<and>
     (content (reply out) = email_needed_msg b \<longrightarrow> manager (self_after out) = manager self)"
  unfolding out_def
  by (rule process_shape)
    (auto simp: generate_order_response_def after_events_def store_and_reply_def
      just_reply_def lookup_error_def cleared_def found_def not_found_def clear_state_def
      new_state_manager_def respond_def msg_distinct
      split: option.splits sum.splits)

text \<open>
  C1. In every conversation, on every turn: the state is cleared exactly when the order
  lookup of that turn found an order, and it is then the empty state; on a turn that finds no
  order nothing is removed (the state is as before, or one entry was added or overwritten);
  on a turn whose lookup found nothing, and on a turn answered with one of the two
  format-correction messages, the state is exactly what it was before the turn.
\<close>

theorem slot_store_cleared_iff_found:
  fixes loads :: json_loads
  defines "before i self ts \<equiv> manager (agent_after loads self (take i ts))"
    and "out i self ts \<equiv> run loads self ts ! i"
  assumes "i < length ts"
  shows "(cleared (out i self ts) \<longleftrightarrow> found (out i self ts)) \<and>
     (found (out i self ts) \<longrightarrow> manager (self_after (out i self ts)) = new_state_manager) \<and>
     (\<not> found (out i self ts) \<longrightarrow>
        (manager (self_after (out i self ts)) = before i self ts \<or>
         (\<exists>k v. events (out i self ts) = [AddEntry k v] \<and>
                add_entry k v (before i self ts) = Inr (manager (self_after (out i self ts)))))) \<and>
     (not_found (out i self ts) \<longrightarrow> manager (self_after (out i self ts)) = before i self ts) \<and>
     (content (reply (out i self ts)) = invalid_order_msg a \<longrightarrow>
        manager (self_after (out i self ts)) = before i self ts) \<and>
     (content (reply (out i self ts)) = email_needed_msg b \<longrightarrow>
        manager (self_after (out i self ts)) = before i self ts)"
  using process_state_effect [of loads "turn_llm (ts ! i)" "agent_after loads self (take i ts)"
      "turn_message (ts ! i)" a b] assms
  by (simp add: run_nth)

theorem slot_store_cleared_iff_found_witness:
  "found (run loads_rejects test_agent retry_conversation ! 3)
   \<and> cleared (run loads_rejects test_agent retry_conversation ! 3)
   \<and> manager (self_after (run loads_rejects test_agent retry_conversation ! 3))
       = new_state_manager
   \<and> not_found (run loads_rejects test_agent retry_conversation ! 2)
   \<and> manager (self_after (run loads_rejects test_agent retry_conversation ! 2))
       = manager (agent_after loads_rejects test_agent (take 2 retry_conversation))
   \<and> content (reply (run loads_rejects test_agent retry_conversation ! 1))
       = invalid_order_msg ''ethan.harris@example.com''
   \<and> manager (self_after (run loads_rejects test_agent retry_conversation ! 1))
       = manager (agent_after loads_rejects test_agent (take 1 retry_conversation))
   \<and> state (manager (agent_after loads_rejects test_agent (take 1 retry_conversation)))
       = [(''email'', ''ethan.harris@example.com'')]"
proof -
  have len: "3 < length retry_conversation" "2 < length retry_conversation"
    "1 < length retry_conversation"
    by (simp_all add: retry_conversation_def)
  have f: "found (run loads_rejects test_agent retry_conversation ! 3)"
    by code_simp
  have n: "not_found (run loads_rejects test_agent retry_conversation ! 2)"
    by code_simp
  have m: "content (reply (run loads_rejects test_agent retry_conversation ! 1))
       = invalid_order_msg ''ethan.harris@example.com''"
    by code_simp
  have s: "state (manager (agent_after loads_rejects test_agent (take 1 retry_conversation)))
       = [(''email'', ''ethan.harris@example.com'')]"
    by code_simp
  show ?thesis
    using f n m s
      slot_store_cleared_iff_found [OF len(1), of loads_rejects test_agent]
      slot_store_cleared_iff_found [OF len(2), of loads_rejects test_agent]
      slot_store_cleared_iff_found [OF len(3), of loads_rejects test_agent
        "''ethan.harris@example.com''"]
    by blast
qed

subsection \<open>The transitions\<close>

text \<open>The branches of \<open>process\<close> in the order of the source, each under the condition on
  which it is taken. Together the conditions cover every turn.\<close>

lemma py_or_simps:
  "truthy a \<Longrightarrow> py_or a b = a"
  "\<not> truthy a \<Longrightarrow> py_or a b = b"
  "truthy (py_or a b) \<longleftrightarrow> truthy a \<or> truthy b"
  by (simp_all add: py_or_def)

lemma process_both:
  assumes "truthy (current_email msg)" and "truthy (current_order msg)"
  shows "process loads llm self msg =
     generate_order_response self (the (current_email msg)) (the (current_order msg))"
  using assms by (simp add: process_def Let_def current_email_def current_order_def)

lemma process_stored_email:
  assumes "\<not> truthy (current_email msg)" and "truthy (current_order msg)"
    and "truthy (get_value ''email'' (manager self))"
  shows "process loads llm self msg =
     generate_order_response self (the (get_value ''email'' (manager self)))
       (the (current_order msg))"
  using assms by (simp add: process_def Let_def current_email_def current_order_def)

lemma process_stored_order:
  assumes "truthy (current_email msg)" and "\<not> truthy (current_order msg)"
    and "truthy (get_value ''order_number'' (manager self))"
  shows "process loads llm self msg =
     generate_order_response self (the (current_email msg))
       (the (get_value ''order_number'' (manager self)))"
  using assms by (simp add: process_def Let_def current_email_def current_order_def)

lemma process_email_alone:
  assumes "truthy (current_email msg)" and "\<not> truthy (current_order msg)"
    and "\<not> truthy (get_value ''order_number'' (manager self))"
    and "CHR ''@'' \<in> set (content msg)" and "length (split (content msg)) = 1"
  shows "process loads llm self msg =
     store_and_reply self ''email'' (the (current_email msg)) (email_msg (the (current_email msg)))"
  using assms by (simp add: process_def Let_def current_email_def current_order_def)

lemma process_email_in_sentence:
  assumes "truthy (current_email msg)" and "\<not> truthy (current_order msg)"
    and "\<not> truthy (get_value ''order_number'' (manager self))"
    and "\<not> (CHR ''@'' \<in> set (content msg) \<and> length (split (content msg)) = 1)"
  shows "process loads llm self msg =
     just_reply self [] (missing_order_msg (the (current_email msg)))"
  using assms
  by (auto simp add: process_def Let_def current_email_def current_order_def py_or_simps)

lemma process_order_alone:
  assumes "\<not> truthy (current_email msg)" and "truthy (current_order msg)"
    and "\<not> truthy (get_value ''email'' (manager self))"
  shows "process loads llm self msg =
     store_and_reply self ''order_number'' (the (current_order msg))
       (order_msg (the (current_order msg)))"
  using assms by (simp add: process_def Let_def current_email_def current_order_def)

lemma process_invalid_order:
  assumes "\<not> truthy (current_email msg)" and "\<not> truthy (current_order msg)"
    and "truthy (get_value ''email'' (manager self))"
    and "isdigit (strip (content msg)) \<or> list_ex isdigit_char (content msg)"
  shows "process loads llm self msg =
     just_reply self [] (invalid_order_msg (the (get_value ''email'' (manager self))))"
  using assms by (simp add: process_def Let_def current_email_def current_order_def)

lemma process_email_needed:
  assumes "\<not> truthy (current_email msg)" and "\<not> truthy (current_order msg)"
    and "truthy (get_value ''order_number'' (manager self))"
    and "\<not> (truthy (get_value ''email'' (manager self))
            \<and> (isdigit (strip (content msg)) \<or> list_ex isdigit_char (content msg)))"
  shows "process loads llm self msg =
     just_reply self [] (email_needed_msg (the (get_value ''order_number'' (manager self))))"
  using assms by (auto simp add: process_def Let_def current_email_def current_order_def)

lemma process_fallback:
  assumes "\<not> truthy (current_email msg)" and "\<not> truthy (current_order msg)"
    and "\<not> truthy (get_value ''order_number'' (manager self))"
    and "\<not> (truthy (get_value ''email'' (manager self))
            \<and> (isdigit (strip (content msg)) \<or> list_ex isdigit_char (content msg)))"
  shows "process loads llm self msg =
     (let extracted = extract_order_info loads llm;
          evs = [ExtractOrderInfo (content msg)];
          final_email = py_or (fst extracted) (get_value ''email'' (manager self));
          final_order = snd extracted
      in if truthy final_email \<and> truthy final_order then
           after_events evs (generate_order_response self (the final_email) (the final_order))
         else if \<not> truthy final_email \<and> \<not> truthy final_order then
           just_reply self evs instructions_msg
         else if \<not> truthy final_email then
           just_reply self evs (missing_email_msg (the final_order))
         else
           just_reply self evs (missing_order_msg (the final_email)))"
  using assms
  by (auto simp add: process_def Let_def current_email_def current_order_def py_or_simps)

text \<open>What the four endings of a turn leave in the log, the agent and the reply.\<close>

lemma generate_order_response_obs:
  "extraction_invoked (generate_order_response self e n) = False"
  "lookup_invoked (generate_order_response self e n) = True"
  "events (generate_order_response self e n) =
     FindOrder e n (find_order (orders_data self) e n)
     # (if find_order (orders_data self) e n = None then [] else [ClearState])"
  by (simp_all add: generate_order_response_def extraction_invoked_def lookup_invoked_def
      split: option.splits)

lemma after_events_obs:
  "extraction_invoked (after_events evs out) = (list_ex is_extraction evs \<or> extraction_invoked out)"
  "lookup_invoked (after_events evs out) = (list_ex is_lookup evs \<or> lookup_invoked out)"
  "self_after (after_events evs out) = self_after out"
  "reply (after_events evs out) = reply out"
  "events (after_events evs out) = evs @ events out"
  by (simp_all add: after_events_def extraction_invoked_def lookup_invoked_def)

lemma store_and_reply_obs:
  "extraction_invoked (store_and_reply self k v t) = False"
  "lookup_invoked (store_and_reply self k v t) = False"
  by (simp_all add: store_and_reply_def lookup_error_def extraction_invoked_def
      lookup_invoked_def split: sum.splits)

lemma just_reply_obs:
  "extraction_invoked (just_reply self evs t) = list_ex is_extraction evs"
  "lookup_invoked (just_reply self evs t) = list_ex is_lookup evs"
  "self_after (just_reply self evs t) = self"
  "events (just_reply self evs t) = evs"
  "content (reply (just_reply self evs t)) = t"
  by (simp_all add: just_reply_def respond_def extraction_invoked_def lookup_invoked_def)

lemmas block_obs =
  generate_order_response_obs after_events_obs store_and_reply_obs just_reply_obs

lemma store_and_reply_email:
  "store_and_reply self ''email'' v t =
     \<lparr>reply = respond self t,
      self_after = self\<lparr>manager :=
        \<lparr>state = AList.update ''email'' v (state (manager self)),
         state_md = Some (to_markdown (AList.update ''email'' v (state (manager self))))\<rparr>\<rparr>,
      events = [AddEntry ''email'' v]\<rparr>"
  by (simp add: store_and_reply_def add_entry_def Let_def)

lemma store_and_reply_order:
  "store_and_reply self ''order_number'' v t =
     \<lparr>reply = respond self t,
      self_after = self\<lparr>manager :=
        \<lparr>state = AList.update ''order_number'' v (state (manager self)),
         state_md = Some (to_markdown (AList.update ''order_number'' v (state (manager self))))\<rparr>\<rparr>,
      events = [AddEntry ''order_number'' v]\<rparr>"
  by (simp add: store_and_reply_def add_entry_def Let_def)

lemma get_value_after_store:
  "get_value ''email'' (manager (self_after (store_and_reply self ''email'' v t))) = Some v"
  "get_value ''order_number'' (manager (self_after (store_and_reply self ''order_number'' v t)))
     = Some v"
  by (simp_all add: store_and_reply_email store_and_reply_order get_value_def update_conv')

subsection \<open>Texts of the replies\<close>

lemma starts_with_append: "starts_with x (x @ s)"
  by (induction x) simp_all

lemma contains_append_right: "contains x (x @ s)"
proof (cases "x @ s")
  case Nil
  then show ?thesis by simp
next
  case (Cons c cs)
  have "starts_with x (x @ s)" by (rule starts_with_append)
  with Cons show ?thesis by simp
qed

lemma contains_Cons: "contains x s \<Longrightarrow> contains x (c # s)"
  by simp

lemma contains_infix: "contains x (p @ x @ s)"
proof (induction p)
  case Nil
  show ?case using contains_append_right by simp
next
  case (Cons c p)
  then show ?case by simp
qed

lemma invalid_order_msg_shows_email: "contains a (invalid_order_msg a)"
proof -
  have "invalid_order_msg a = (mountain @ '' I have your email ('') @ a @
     ('') but that doesn't look like one of our order numbers. Our order numbers start with 'W' and look like #W001, #W002, etc. Could you check your order confirmation email for the correct format? '' @ star)"
    by (simp add: invalid_order_msg_def)
  then show ?thesis by (simp only: contains_infix)
qed

lemma invalid_order_msg_shows_format: "contains ''#W001'' (invalid_order_msg a)"
proof -
  have "invalid_order_msg a = (mountain @ '' I have your email ('' @ a @
     '') but that doesn't look like one of our order numbers. Our order numbers start with 'W' and look like '') @ ''#W001'' @
     ('', #W002, etc. Could you check your order confirmation email for the correct format? '' @ star)"
    by (simp add: invalid_order_msg_def)
  then show ?thesis by (simp only: contains_infix)
qed

lemma email_msg_shows_format: "contains ''#W001'' (email_msg a)"
proof -
  have "email_msg a = (mountain @ '' Got it! I have your email: '' @ a @ ''. Now I need your order number (like '') @ ''#W001'' @
     ('', #W002, etc.) to find your gear! '' @ star)"
    by (simp add: email_msg_def)
  then show ?thesis by (simp only: contains_infix)
qed

subsection \<open>Invalid order number with a stored e-mail address\<close>

text \<open>
  C2 (amended). On a turn where the state holds an e-mail address, the coordinator's
  entities carry neither an order number nor an e-mail address, the text matches neither the
  order-number patterns nor the e-mail pattern, and the text contains one of the digits
  \<open>0\<close> to \<open>9\<close> (a digit for \<open>str.isdigit\<close> too): the order lookup is not called
  (nothing at all is logged), the reply is the format-correction message, which contains the
  stored address as it is and the example \<open>#W001\<close>, and the agent with its state is
  unchanged, so that the address stays stored.
\<close>

theorem invalid_order_keeps_email:
  fixes loads :: json_loads and llm :: llm_outcome and self :: agent and msg :: message
  assumes "get_value ''email'' (manager self) = Some a" and "a \<noteq> []"
    and "\<not> truthy (map_of (metadata_entities msg) ''OrderNumber'')"
    and "\<not> truthy (extract_order_number_from_text (content msg))"
    and "\<not> truthy (map_of (metadata_entities msg) ''Email'')"
    and "\<not> truthy (extract_email_from_text (content msg))"
    and "list_ex isdigit_char (content msg)"
  shows "\<not> lookup_invoked (process loads llm self msg)
     \<and> events (process loads llm self msg) = []
     \<and> content (reply (process loads llm self msg)) = invalid_order_msg a
     \<and> contains a (content (reply (process loads llm self msg)))
     \<and> contains ''#W001'' (content (reply (process loads llm self msg)))
     \<and> self_after (process loads llm self msg) = self
     \<and> get_value ''email'' (manager (self_after (process loads llm self msg))) = Some a"
proof -
  have o: "\<not> truthy (current_order msg)"
    using assms(3,4) by (simp add: current_order_def py_or_simps)
  have e: "\<not> truthy (current_email msg)"
    using assms(5,6) by (simp add: current_email_def py_or_simps)
  have "process loads llm self msg = just_reply self [] (invalid_order_msg a)"
    using process_invalid_order [of msg self loads llm] assms(1,2,7) o e by simp
  then show ?thesis
    using assms(1)
    by (simp add: just_reply_obs invalid_order_msg_shows_email invalid_order_msg_shows_format)
qed

theorem invalid_order_keeps_email_witness:
  "get_value ''email'' (manager (agent_with_email ''ethan.harris@example.com''))
     = Some ''ethan.harris@example.com''
   \<and> \<not> truthy (map_of (metadata_entities (customer_message ''677623'' [])) ''OrderNumber'')
   \<and> \<not> truthy (extract_order_number_from_text (content (customer_message ''677623'' [])))
   \<and> \<not> truthy (map_of (metadata_entities (customer_message ''677623'' [])) ''Email'')
   \<and> \<not> truthy (extract_email_from_text (content (customer_message ''677623'' [])))
   \<and> list_ex isdigit_char (content (customer_message ''677623'' []))
   \<and> content (reply (process loads_rejects model_down
          (agent_with_email ''ethan.harris@example.com'') (customer_message ''677623'' [])))
       = invalid_order_msg ''ethan.harris@example.com''
   \<and> \<not> lookup_invoked (process loads_rejects model_down
          (agent_with_email ''ethan.harris@example.com'') (customer_message ''677623'' []))
   \<and> get_value ''email'' (manager (self_after (process loads_rejects model_down
          (agent_with_email ''ethan.harris@example.com'') (customer_message ''677623'' []))))
       = Some ''ethan.harris@example.com''"
proof -
  have h1: "get_value ''email'' (manager (agent_with_email ''ethan.harris@example.com''))
     = Some ''ethan.harris@example.com''"
    by code_simp
  have h2: "''ethan.harris@example.com'' \<noteq> []"
    by simp
  have h3: "\<not> truthy (map_of (metadata_entities (customer_message ''677623'' []))
      ''OrderNumber'')"
    by code_simp
  have h4: "\<not> truthy (extract_order_number_from_text (content (customer_message ''677623'' [])))"
    by code_simp
  have h5: "\<not> truthy (map_of (metadata_entities (customer_message ''677623'' [])) ''Email'')"
    by code_simp
  have h6: "\<not> truthy (extract_email_from_text (content (customer_message ''677623'' [])))"
    by code_simp
  have h7: "list_ex isdigit_char (content (customer_message ''677623'' []))"
    by code_simp
  show ?thesis
    using h1 h3 h4 h5 h6 h7
      invalid_order_keeps_email [OF h1 h2 h3 h4 h5 h6 h7, of loads_rejects model_down]
    by blast
qed

text \<open>
  C2 as stated fails on two turns, both with the address stored and a message that holds
  no order number of the valid shape and no e-mail address. The query \<open>hello\<close> has no
  digit: the turn goes on to the model-based extraction and, the model giving nothing,
  answers with the request for the order number, which is not the format-correction message
  and shows no format. The query \<open>677623\<close> that the coordinator also sends as the entity
  \<open>OrderNumber\<close>: the text matches no order-number pattern, yet the entity is taken as
  the order number and the order lookup is called with it.
\<close>

theorem stored_email_without_format_correction:
  "truthy (get_value ''email'' (manager (agent_with_email ''ethan.harris@example.com'')))
   \<and> \<not> truthy (current_order (customer_message ''hello'' []))
   \<and> \<not> truthy (current_email (customer_message ''hello'' []))
   \<and> content (reply (process loads_rejects model_down
          (agent_with_email ''ethan.harris@example.com'') (customer_message ''hello'' [])))
       = missing_order_msg ''ethan.harris@example.com''
   \<and> content (reply (process loads_rejects model_down
          (agent_with_email ''ethan.harris@example.com'') (customer_message ''hello'' [])))
       \<noteq> invalid_order_msg ''ethan.harris@example.com''
   \<and> \<not> contains ''#W'' (content (reply (process loads_rejects model_down
          (agent_with_email ''ethan.harris@example.com'') (customer_message ''hello'' []))))
   \<and> extraction_invoked (process loads_rejects model_down
          (agent_with_email ''ethan.harris@example.com'') (customer_message ''hello'' []))
   \<and> extract_order_number_from_text ''677623'' = None
   \<and> extract_email_from_text ''677623'' = None
   \<and> \<not> truthy (current_email (customer_message ''677623'' [(''OrderNumber'', ''677623'')]))
   \<and> lookup_invoked (process loads_rejects model_down
          (agent_with_email ''ethan.harris@example.com'')
          (customer_message ''677623'' [(''OrderNumber'', ''677623'')]))
   \<and> events (process loads_rejects model_down
          (agent_with_email ''ethan.harris@example.com'')
          (customer_message ''677623'' [(''OrderNumber'', ''677623'')]))
       = [FindOrder ''ethan.harris@example.com'' ''677623'' None]
   \<and> content (reply (process loads_rejects model_down
          (agent_with_email ''ethan.harris@example.com'')
          (customer_message ''677623'' [(''OrderNumber'', ''677623'')])))
       = not_found_msg ''677623'' ''ethan.harris@example.com''"
  by code_simp

text \<open>
  C3. The scenario at the agent: the address \<open>ethan.harris@example.com\<close> is stored and the
  next query is \<open>677623\<close>, with no entity from the coordinator. The reply mentions the
  address and the example \<open>#W001\<close> and the address is still stored, but the reply does not
  mention \<open>677623\<close>.
\<close>

theorem invalid_order_reply_omits_input:
  "content (reply (process loads_rejects model_down
       (agent_with_email ''ethan.harris@example.com'') (customer_message ''677623'' [])))
     = invalid_order_msg ''ethan.harris@example.com''
   \<and> contains ''ethan.harris@example.com''
        (content (reply (process loads_rejects model_down
           (agent_with_email ''ethan.harris@example.com'') (customer_message ''677623'' []))))
   \<and> contains ''#W001''
        (content (reply (process loads_rejects model_down
           (agent_with_email ''ethan.harris@example.com'') (customer_message ''677623'' []))))
   \<and> \<not> contains ''677623''
        (content (reply (process loads_rejects model_down
           (agent_with_email ''ethan.harris@example.com'') (customer_message ''677623'' []))))
   \<and> get_value ''email'' (manager (self_after (process loads_rejects model_down
           (agent_with_email ''ethan.harris@example.com'') (customer_message ''677623'' []))))
       = Some ''ethan.harris@example.com''"
  by code_simp

subsection \<open>E-mail address first, order number next\<close>

text \<open>
  C4 (amended). With an empty state, on a turn that resolves an e-mail address and no
  order number and whose query is a single word containing \<open>@\<close>: the address is stored, the
  reply asks for the order number and shows the example \<open>#W001\<close>, and no lookup is made.
  If the next turn resolves an order number and no e-mail address, it is the lookup with the
  stored address and the new order number.
\<close>

theorem standalone_email_then_order:
  fixes loads :: json_loads and llm1 llm2 :: llm_outcome and self :: agent
    and msg1 msg2 :: message
  assumes "state (manager self) = []"
    and "current_email msg1 = Some a" and "a \<noteq> []" and "\<not> truthy (current_order msg1)"
    and "CHR ''@'' \<in> set (content msg1)" and "length (split (content msg1)) = 1"
    and "current_order msg2 = Some b" and "b \<noteq> []" and "\<not> truthy (current_email msg2)"
  shows "state (manager (self_after (process loads llm1 self msg1))) = [(''email'', a)]
     \<and> content (reply (process loads llm1 self msg1)) = email_msg a
     \<and> contains ''#W001'' (content (reply (process loads llm1 self msg1)))
     \<and> \<not> lookup_invoked (process loads llm1 self msg1)
     \<and> process loads llm2 (self_after (process loads llm1 self msg1)) msg2
         = generate_order_response (self_after (process loads llm1 self msg1)) a b
     \<and> events (process loads llm2 (self_after (process loads llm1 self msg1)) msg2)
         = FindOrder a b (find_order (orders_data self) a b)
           # (if find_order (orders_data self) a b = None then [] else [ClearState])"
proof -
  have so: "\<not> truthy (get_value ''order_number'' (manager self))"
    using assms(1) by (simp add: get_value_def)
  have p1: "process loads llm1 self msg1 = store_and_reply self ''email'' a (email_msg a)"
    using process_email_alone [of msg1 self loads llm1] assms so by simp
  have s1: "state (manager (self_after (process loads llm1 self msg1))) = [(''email'', a)]"
    using assms(1) by (simp add: p1 store_and_reply_email)
  have se: "get_value ''email'' (manager (self_after (process loads llm1 self msg1))) = Some a"
    by (simp add: p1 get_value_after_store)
  have od: "orders_data (self_after (process loads llm1 self msg1)) = orders_data self"
    by (simp add: p1 store_and_reply_email)
  have p2: "process loads llm2 (self_after (process loads llm1 self msg1)) msg2
         = generate_order_response (self_after (process loads llm1 self msg1)) a b"
    using process_stored_email [of msg2 "self_after (process loads llm1 self msg1)" loads llm2]
      assms(3,7,8,9) se by simp
  have r1: "content (reply (process loads llm1 self msg1)) = email_msg a"
    by (simp add: p1 store_and_reply_email respond_def)
  have l1: "\<not> lookup_invoked (process loads llm1 self msg1)"
    by (simp add: p1 store_and_reply_obs)
  show ?thesis
    using s1 r1 l1 p2 od by (simp add: email_msg_shows_format generate_order_response_obs)
qed

theorem standalone_email_then_order_witness:
  "state (manager test_agent) = []
   \<and> current_email (customer_message ''ethan.harris@example.com'' [])
       = Some ''ethan.harris@example.com''
   \<and> \<not> truthy (current_order (customer_message ''ethan.harris@example.com'' []))
   \<and> CHR ''@'' \<in> set (content (customer_message ''ethan.harris@example.com'' []))
   \<and> length (split (content (customer_message ''ethan.harris@example.com'' []))) = 1
   \<and> current_order (customer_message ''#W007'' []) = Some ''#W007''
   \<and> \<not> truthy (current_email (customer_message ''#W007'' []))
   \<and> state (manager (self_after (process loads_rejects model_down test_agent
          (customer_message ''ethan.harris@example.com'' []))))
       = [(''email'', ''ethan.harris@example.com'')]
   \<and> events (process loads_rejects model_down
          (self_after (process loads_rejects model_down test_agent
             (customer_message ''ethan.harris@example.com'' [])))
          (customer_message ''#W007'' []))
       = [FindOrder ''ethan.harris@example.com'' ''#W007'' (Some order_W007), ClearState]"
proof -
  have h1: "state (manager test_agent) = []"
    by code_simp
  have h2: "current_email (customer_message ''ethan.harris@example.com'' [])
       = Some ''ethan.harris@example.com''"
    by code_simp
  have h3: "''ethan.harris@example.com'' \<noteq> []"
    by simp
  have h4: "\<not> truthy (current_order (customer_message ''ethan.harris@example.com'' []))"
    by code_simp
  have h5: "CHR ''@'' \<in> set (content (customer_message ''ethan.harris@example.com'' []))"
    by code_simp
  have h6: "length (split (content (customer_message ''ethan.harris@example.com'' []))) = 1"
    by code_simp
  have h7: "current_order (customer_message ''#W007'' []) = Some ''#W007''"
    by code_simp
  have h8: "''#W007'' \<noteq> []"
    by simp
  have h9: "\<not> truthy (current_email (customer_message ''#W007'' []))"
    by code_simp
  have f: "find_order (orders_data test_agent) ''ethan.harris@example.com'' ''#W007''
       = Some order_W007"
    by code_simp
  note t = standalone_email_then_order [OF h1 h2 h3 h4 h5 h6 h7 h8 h9,
      of loads_rejects model_down model_down]
  from t have s: "state (manager (self_after (process loads_rejects model_down test_agent
          (customer_message ''ethan.harris@example.com'' []))))
       = [(''email'', ''ethan.harris@example.com'')]"
    by blast
  from t have "events (process loads_rejects model_down
          (self_after (process loads_rejects model_down test_agent
             (customer_message ''ethan.harris@example.com'' [])))
          (customer_message ''#W007'' []))
       = FindOrder ''ethan.harris@example.com'' ''#W007''
           (find_order (orders_data test_agent) ''ethan.harris@example.com'' ''#W007'')
         # (if find_order (orders_data test_agent) ''ethan.harris@example.com'' ''#W007'' = None
            then [] else [ClearState])"
    by blast
  then have e: "events (process loads_rejects model_down
          (self_after (process loads_rejects model_down test_agent
             (customer_message ''ethan.harris@example.com'' [])))
          (customer_message ''#W007'' []))
       = [FindOrder ''ethan.harris@example.com'' ''#W007'' (Some order_W007), ClearState]"
    by (simp add: f)
  show ?thesis
    using h1 h2 h4 h5 h6 h7 h9 s e by blast
qed

text \<open>
  C4 as stated fails when the address comes in a sentence: with an empty state the query
  \<open>my email is john.doe@example.com\<close> resolves the address and no order number, yet
  nothing is stored and the reply shows no format; the order number sent next is stored
  instead of being looked up with the address.
\<close>

theorem email_in_sentence_is_not_stored:
  "state (manager test_agent) = []
   \<and> current_email (customer_message ''my email is john.doe@example.com'' [])
       = Some ''john.doe@example.com''
   \<and> \<not> truthy (current_order (customer_message ''my email is john.doe@example.com'' []))
   \<and> state (manager (self_after (process loads_rejects model_down test_agent
          (customer_message ''my email is john.doe@example.com'' [])))) = []
   \<and> content (reply (process loads_rejects model_down test_agent
          (customer_message ''my email is john.doe@example.com'' [])))
       = missing_order_msg ''john.doe@example.com''
   \<and> \<not> contains ''#W'' (content (reply (process loads_rejects model_down test_agent
          (customer_message ''my email is john.doe@example.com'' []))))
   \<and> current_order (customer_message ''#W001'' []) = Some ''#W001''
   \<and> \<not> lookup_invoked (process loads_rejects model_down
          (self_after (process loads_rejects model_down test_agent
             (customer_message ''my email is john.doe@example.com'' [])))
          (customer_message ''#W001'' []))"
  by code_simp

subsection \<open>Precedence of the sources\<close>

text \<open>The model-based extraction is called on the last branch only: no value from the
  entities or the text, no stored order number, and not the invalid-order case.\<close>

lemma extraction_only_in_fallback:
  assumes "extraction_invoked (process loads llm self msg)"
  shows "\<not> truthy (current_email msg) \<and> \<not> truthy (current_order msg)
     \<and> \<not> truthy (get_value ''order_number'' (manager self))
     \<and> \<not> (truthy (get_value ''email'' (manager self))
            \<and> (isdigit (strip (content msg)) \<or> list_ex isdigit_char (content msg)))"
proof (rule ccontr)
  assume n: "\<not> ?thesis"
  have "\<not> extraction_invoked (process loads llm self msg)"
  proof (cases "truthy (current_email msg)")
    case ce: True
    show ?thesis
    proof (cases "truthy (current_order msg)")
      case True
      with ce show ?thesis by (simp add: process_both block_obs)
    next
      case co: False
      show ?thesis
      proof (cases "truthy (get_value ''order_number'' (manager self))")
        case True
        with ce co show ?thesis by (simp add: process_stored_order block_obs)
      next
        case so: False
        show ?thesis
        proof (cases "CHR ''@'' \<in> set (content msg) \<and> length (split (content msg)) = 1")
          case True
          with ce co so show ?thesis by (simp add: process_email_alone block_obs)
        next
          case False
          with ce co so show ?thesis by (simp add: process_email_in_sentence block_obs)
        qed
      qed
    qed
  next
    case ce: False
    show ?thesis
    proof (cases "truthy (current_order msg)")
      case co: True
      show ?thesis
      proof (cases "truthy (get_value ''email'' (manager self))")
        case True
        with ce co show ?thesis by (simp add: process_stored_email block_obs)
      next
        case False
        with ce co show ?thesis by (simp add: process_order_alone block_obs)
      qed
    next
      case co: False
      show ?thesis
      proof (cases "truthy (get_value ''email'' (manager self))
            \<and> (isdigit (strip (content msg)) \<or> list_ex isdigit_char (content msg))")
        case True
        with ce co show ?thesis by (simp add: process_invalid_order block_obs)
      next
        case nd: False
        with n ce co have "truthy (get_value ''order_number'' (manager self))" by blast
        with ce co nd show ?thesis by (simp add: process_email_needed block_obs)
      qed
    qed
  qed
  with assms show False by contradiction
qed

text \<open>
  C8. For each of the two fields the value of the turn is the coordinator's entity when it
  is true and the text match otherwise. It is this value that the turn uses: in the lookup
  when both fields are resolved, in the lookup with the stored other field, and as the value
  stored when one field is resolved alone. The model-based extraction is called only when
  neither the entities nor the text give a value for either field.
\<close>

theorem resolution_precedence:
  fixes loads :: json_loads and llm :: llm_outcome and self :: agent and msg :: message
  defines "ent_email \<equiv> map_of (metadata_entities msg) ''Email''"
    and "ent_order \<equiv> map_of (metadata_entities msg) ''OrderNumber''"
    and "stored_email \<equiv> get_value ''email'' (manager self)"
    and "stored_order \<equiv> get_value ''order_number'' (manager self)"
    and "out \<equiv> process loads llm self msg"
  shows "current_email msg
       = (if truthy ent_email then ent_email else extract_email_from_text (content msg))
     \<and> current_order msg
       = (if truthy ent_order then ent_order else extract_order_number_from_text (content msg))
     \<and> (truthy (current_email msg) \<and> truthy (current_order msg) \<longrightarrow>
          out = generate_order_response self (the (current_email msg)) (the (current_order msg)))
     \<and> (\<not> truthy (current_email msg) \<and> truthy (current_order msg) \<and> truthy stored_email \<longrightarrow>
          out = generate_order_response self (the stored_email) (the (current_order msg)))
     \<and> (truthy (current_email msg) \<and> \<not> truthy (current_order msg) \<and> truthy stored_order \<longrightarrow>
          out = generate_order_response self (the (current_email msg)) (the stored_order))
     \<and> (truthy (current_email msg) \<and> \<not> truthy (current_order msg) \<and> \<not> truthy stored_order
          \<and> CHR ''@'' \<in> set (content msg) \<and> length (split (content msg)) = 1 \<longrightarrow>
          get_value ''email'' (manager (self_after out)) = current_email msg)
     \<and> (\<not> truthy (current_email msg) \<and> truthy (current_order msg) \<and> \<not> truthy stored_email \<longrightarrow>
          get_value ''order_number'' (manager (self_after out)) = current_order msg)
     \<and> (extraction_invoked out \<longrightarrow>
          \<not> truthy ent_email \<and> \<not> truthy (extract_email_from_text (content msg))
          \<and> \<not> truthy ent_order \<and> \<not> truthy (extract_order_number_from_text (content msg)))"
proof -
  have some: "\<And>x. truthy x \<Longrightarrow> Some (the x) = x"
    by (case_tac x) simp_all
  have a: "truthy (current_email msg) \<and> \<not> truthy (current_order msg) \<and> \<not> truthy stored_order
          \<and> CHR ''@'' \<in> set (content msg) \<and> length (split (content msg)) = 1 \<longrightarrow>
          get_value ''email'' (manager (self_after out)) = current_email msg"
    unfolding out_def stored_order_def
    by (simp add: process_email_alone get_value_after_store some)
  have b: "\<not> truthy (current_email msg) \<and> truthy (current_order msg) \<and> \<not> truthy stored_email \<longrightarrow>
          get_value ''order_number'' (manager (self_after out)) = current_order msg"
    unfolding out_def stored_email_def
    by (simp add: process_order_alone get_value_after_store some)
  have c: "extraction_invoked out \<longrightarrow>
          \<not> truthy ent_email \<and> \<not> truthy (extract_email_from_text (content msg))
          \<and> \<not> truthy ent_order \<and> \<not> truthy (extract_order_number_from_text (content msg))"
    using extraction_only_in_fallback [of loads llm self msg]
    unfolding out_def ent_email_def ent_order_def
    by (simp add: current_email_def current_order_def py_or_simps)
  show ?thesis
    using a b c unfolding out_def stored_email_def stored_order_def ent_email_def ent_order_def
    by (simp add: process_both process_stored_email process_stored_order)
      (simp add: current_email_def current_order_def py_or_def)
qed

theorem resolution_precedence_witness:
  "truthy (current_email (customer_message ''check #W007 for ethan.harris@example.com''
       [(''Email'', ''john.doe@example.com''), (''OrderNumber'', ''#W001'')]))
   \<and> truthy (current_order (customer_message ''check #W007 for ethan.harris@example.com''
       [(''Email'', ''john.doe@example.com''), (''OrderNumber'', ''#W001'')]))
   \<and> extract_email_from_text ''check #W007 for ethan.harris@example.com''
       = Some ''ethan.harris@example.com''
   \<and> extract_order_number_from_text ''check #W007 for ethan.harris@example.com''
       = Some ''#W007''
   \<and> process loads_rejects model_down test_agent
         (customer_message ''check #W007 for ethan.harris@example.com''
           [(''Email'', ''john.doe@example.com''), (''OrderNumber'', ''#W001'')])
       = generate_order_response test_agent ''john.doe@example.com'' ''#W001''
   \<and> extraction_invoked (process loads_rejects model_down test_agent
         (customer_message ''hello'' []))
   \<and> \<not> truthy (extract_email_from_text (content (customer_message ''hello'' [])))
   \<and> \<not> truthy (extract_order_number_from_text (content (customer_message ''hello'' [])))"
proof -
  have h1: "truthy (current_email (customer_message ''check #W007 for ethan.harris@example.com''
       [(''Email'', ''john.doe@example.com''), (''OrderNumber'', ''#W001'')]))"
    by code_simp
  have h2: "truthy (current_order (customer_message ''check #W007 for ethan.harris@example.com''
       [(''Email'', ''john.doe@example.com''), (''OrderNumber'', ''#W001'')]))"
    by code_simp
  have v1: "the (current_email (customer_message ''check #W007 for ethan.harris@example.com''
       [(''Email'', ''john.doe@example.com''), (''OrderNumber'', ''#W001'')]))
       = ''john.doe@example.com''"
    by code_simp
  have v2: "the (current_order (customer_message ''check #W007 for ethan.harris@example.com''
       [(''Email'', ''john.doe@example.com''), (''OrderNumber'', ''#W001'')]))
       = ''#W001''"
    by code_simp
  have t1: "extract_email_from_text ''check #W007 for ethan.harris@example.com''
       = Some ''ethan.harris@example.com''"
    by code_simp
  have t2: "extract_order_number_from_text ''check #W007 for ethan.harris@example.com''
       = Some ''#W007''"
    by code_simp
  have h3: "extraction_invoked (process loads_rejects model_down test_agent
         (customer_message ''hello'' []))"
    by code_simp
  note a = resolution_precedence [of "customer_message ''check #W007 for ethan.harris@example.com''
           [(''Email'', ''john.doe@example.com''), (''OrderNumber'', ''#W001'')]"
         loads_rejects model_down test_agent]
  from a h1 h2 have "process loads_rejects model_down test_agent
         (customer_message ''check #W007 for ethan.harris@example.com''
           [(''Email'', ''john.doe@example.com''), (''OrderNumber'', ''#W001'')])
       = generate_order_response test_agent
           (the (current_email (customer_message ''check #W007 for ethan.harris@example.com''
              [(''Email'', ''john.doe@example.com''), (''OrderNumber'', ''#W001'')])))
           (the (current_order (customer_message ''check #W007 for ethan.harris@example.com''
              [(''Email'', ''john.doe@example.com''), (''OrderNumber'', ''#W001'')])))"
    by blast
  then have p: "process loads_rejects model_down test_agent
         (customer_message ''check #W007 for ethan.harris@example.com''
           [(''Email'', ''john.doe@example.com''), (''OrderNumber'', ''#W001'')])
       = generate_order_response test_agent ''john.doe@example.com'' ''#W001''"
    by (simp only: v1 v2)
  note b = resolution_precedence [of "customer_message ''hello'' []" loads_rejects model_down
         test_agent]
  from b h3 have n:
    "\<not> truthy (extract_email_from_text (content (customer_message ''hello'' [])))
     \<and> \<not> truthy (extract_order_number_from_text (content (customer_message ''hello'' [])))"
    by blast
  show ?thesis
    using h1 h2 t1 t2 p h3 n by blast
qed

subsection \<open>Failure of the model-based extraction\<close>

lemma extract_order_info_unavailable:
  "extraction_unavailable loads llm \<Longrightarrow> extract_order_info loads llm = (None, None)"
  unfolding extraction_unavailable_def extract_order_info_def parse_order_extraction_def
  by (cases llm) (auto split: option.splits if_splits)

text \<open>
  C9. When the model-based extraction has nothing to give (the call raised or failed, or
  its content holds no JSON object that \<open>json.loads\<close> accepts), \<open>extract_order_info\<close>
  returns \<open>(None, None)\<close>; and a turn that called it still ends with a reply, built from
  what the state holds: the agent and its state are unchanged, no lookup is made, and the
  reply asks for the order number (naming the stored address) or, with no stored address,
  for both values.
\<close>

theorem failed_extraction_degrades:
  fixes loads :: json_loads and llm :: llm_outcome and self :: agent and msg :: message
  assumes "extraction_unavailable loads llm"
  shows "extract_order_info loads llm = (None, None)
     \<and> (extraction_invoked (process loads llm self msg) \<longrightarrow>
          self_after (process loads llm self msg) = self
          \<and> \<not> lookup_invoked (process loads llm self msg)
          \<and> events (process loads llm self msg) = [ExtractOrderInfo (content msg)]
          \<and> content (reply (process loads llm self msg)) =
              (if truthy (get_value ''email'' (manager self))
               then missing_order_msg (the (get_value ''email'' (manager self)))
               else instructions_msg))"
proof -
  have x: "extract_order_info loads llm = (None, None)"
    using assms by (rule extract_order_info_unavailable)
  {
    assume "extraction_invoked (process loads llm self msg)"
    from extraction_only_in_fallback [OF this]
    have "process loads llm self msg =
       (if truthy (get_value ''email'' (manager self))
        then just_reply self [ExtractOrderInfo (content msg)]
               (missing_order_msg (the (get_value ''email'' (manager self))))
        else just_reply self [ExtractOrderInfo (content msg)] instructions_msg)"
      by (simp add: process_fallback x py_or_simps Let_def)
    then have "self_after (process loads llm self msg) = self
          \<and> \<not> lookup_invoked (process loads llm self msg)
          \<and> events (process loads llm self msg) = [ExtractOrderInfo (content msg)]
          \<and> content (reply (process loads llm self msg)) =
              (if truthy (get_value ''email'' (manager self))
               then missing_order_msg (the (get_value ''email'' (manager self)))
               else instructions_msg)"
      by (simp add: block_obs)
  }
  with x show ?thesis by blast
qed

theorem failed_extraction_degrades_witness:
  "extraction_unavailable loads_rejects (ChatResponse True ''Sorry, {nothing} found'')
   \<and> extract_order_info loads_rejects (ChatResponse True ''Sorry, {nothing} found'')
       = (None, None)
   \<and> extraction_invoked (process loads_rejects (ChatResponse True ''Sorry, {nothing} found'')
         (agent_with_email ''ethan.harris@example.com'') (customer_message ''hello'' []))
   \<and> manager (self_after (process loads_rejects (ChatResponse True ''Sorry, {nothing} found'')
         (agent_with_email ''ethan.harris@example.com'') (customer_message ''hello'' [])))
       = manager (agent_with_email ''ethan.harris@example.com'')
   \<and> content (reply (process loads_rejects (ChatResponse True ''Sorry, {nothing} found'')
         (agent_with_email ''ethan.harris@example.com'') (customer_message ''hello'' [])))
       = missing_order_msg ''ethan.harris@example.com''"
proof -
  have h: "extraction_unavailable loads_rejects (ChatResponse True ''Sorry, {nothing} found'')"
    by code_simp
  have i: "extraction_invoked (process loads_rejects (ChatResponse True ''Sorry, {nothing} found'')
         (agent_with_email ''ethan.harris@example.com'') (customer_message ''hello'' []))"
    by code_simp
  have s: "get_value ''email'' (manager (agent_with_email ''ethan.harris@example.com''))
       = Some ''ethan.harris@example.com''"
    by code_simp
  show ?thesis
    using h i s
      failed_extraction_degrades [OF h, of "agent_with_email ''ethan.harris@example.com''"
        "customer_message ''hello'' []"]
    by simp
qed

subsection \<open>Normalisation of the order number\<close>

text \<open>What a successful match of each pattern item gives.\<close>

lemma first_some_Some:
  "first_some f xs = Some y \<Longrightarrow> \<exists>x \<in> set xs. f x = Some y"
  by (induction xs) (auto split: option.splits)

lemma re_search_from_Some:
  "re_search_from ps prev s = Some m \<Longrightarrow> \<exists>p t. re_match ps p t = Some m"
proof (induction s arbitrary: prev)
  case Nil
  then show ?case by (simp only: re_search_from.simps) blast
next
  case (Cons c cs)
  show ?case
  proof (cases "re_match ps prev (c # cs)")
    case None
    with Cons.prems have "re_search_from ps (Some c) cs = Some m"
      by (simp only: re_search_from.simps option.case)
    then show ?thesis by (rule Cons.IH)
  next
    case (Some y)
    with Cons.prems have "y = m"
      by (simp only: re_search_from.simps option.case option.inject)
    with Some show ?thesis by blast
  qed
qed

lemma re_match_One_Some:
  assumes "re_match (One c # ps) prev s = Some m"
  shows "\<exists>x xs r. s = x # xs \<and> in_cls c x \<and> m = x # r \<and> re_match ps (Some x) xs = Some r"
proof (cases s)
  case Nil
  with assms show ?thesis by (simp only: re_match.simps list.case) simp
next
  case (Cons x xs)
  with assms have a: "(if in_cls c x then map_option (Cons x) (re_match ps (Some x) xs) else None)
      = Some m"
    by (simp only: re_match.simps list.case)
  then have i: "in_cls c x"
    by (cases "in_cls c x") simp_all
  with a obtain r where "re_match ps (Some x) xs = Some r" and "m = x # r"
    by (cases "re_match ps (Some x) xs") auto
  with Cons i show ?thesis by blast
qed

lemma re_match_WordBoundary_Some:
  assumes "re_match (WordBoundary # ps) prev s = Some m"
  shows "re_match ps prev s = Some m"
  using assms by (cases "at_boundary prev s") (simp_all only: re_match.simps if_True if_False, simp)

lemma re_match_AtLeast_Some:
  assumes "re_match (AtLeast n c # ps) prev s = Some m"
  shows "\<exists>k r q. n \<le> k \<and> k \<le> length (takeWhile (in_cls c) s) \<and> m = take k s @ r
     \<and> re_match ps q (drop k s) = Some r"
proof -
  from assms have "first_some
       (\<lambda>k. map_option (append (take k s))
              (re_match ps (if k = 0 then prev else Some (s ! (k - 1))) (drop k s)))
       (rev [n ..< Suc (length (takeWhile (in_cls c) s))]) = Some m"
    by (simp only: re_match.simps)
  from first_some_Some [OF this] obtain k
    where k: "k \<in> set (rev [n ..< Suc (length (takeWhile (in_cls c) s))])"
      and f: "map_option (append (take k s))
              (re_match ps (if k = 0 then prev else Some (s ! (k - 1))) (drop k s)) = Some m"
    by blast
  from f obtain r where
    "re_match ps (if k = 0 then prev else Some (s ! (k - 1))) (drop k s) = Some r"
    and "m = take k s @ r"
    by (cases "re_match ps (if k = 0 then prev else Some (s ! (k - 1))) (drop k s)") auto
  moreover from k have "n \<le> k \<and> k \<le> length (takeWhile (in_cls c) s)"
    by auto
  ultimately show ?thesis by blast
qed

lemma take_of_run:
  "k \<le> length (takeWhile P s) \<Longrightarrow> list_all P (take k s)"
proof (induction s arbitrary: k)
  case Nil
  then show ?case by simp
next
  case (Cons x xs)
  show ?case
  proof (cases k)
    case 0
    then show ?thesis by simp
  next
    case (Suc j)
    with Cons.prems have "P x" and "j \<le> length (takeWhile P xs)"
      by (auto split: if_splits)
    with Cons.IH Suc show ?thesis by simp
  qed
qed

text \<open>The text extractor returns nothing or \<open>#W\<close> followed by one or more digits.\<close>

lemma digits_then_end:
  assumes "re_match (AtLeast 1 Digit # ps) prev s = Some m"
    and "\<And>q t r. re_match ps q t = Some r \<Longrightarrow> r = []"
  shows "m \<noteq> [] \<and> list_all isdigit_char m"
proof -
  from re_match_AtLeast_Some [OF assms(1)] obtain k r q
    where k: "1 \<le> k" "k \<le> length (takeWhile (in_cls Digit) s)"
      and m: "m = take k s @ r" and r: "re_match ps q (drop k s) = Some r"
    by blast
  from r have "r = []" by (rule assms(2))
  with m have m': "m = take k s" by simp
  from k(2) have "list_all (in_cls Digit) (take k s)" by (rule take_of_run)
  then have d: "list_all isdigit_char (take k s)"
    by (simp add: list_all_iff)
  from k have "take k s \<noteq> []"
    by (cases s) auto
  with d m' show ?thesis by simp
qed

lemma boundary_end:
  "re_match [WordBoundary] q t = Some r \<Longrightarrow> r = []"
  by (drule re_match_WordBoundary_Some) simp

lemma pattern_end:
  "re_match [] q t = Some r \<Longrightarrow> r = []"
  by simp

lemma extract_order_number_shape:
  assumes "extract_order_number_from_text text = Some r"
  shows "\<exists>ds. r = ''#W'' @ ds \<and> ds \<noteq> [] \<and> list_all isdigit_char ds"
proof (cases "re_search order_pattern_hash text")
  case (Some m)
  with assms have r: "r = m"
    by (simp add: extract_order_number_from_text_def)
  from Some obtain p t where "re_match order_pattern_hash p t = Some m"
    unfolding re_search_def by (blast dest: re_search_from_Some)
  then have "re_match (One (Lit (CHR ''#'')) # One (Lit (CHR ''W'')) # [AtLeast 1 Digit]) p t
      = Some m"
    by (simp only: order_pattern_hash_def)
  from re_match_One_Some [OF this] obtain x1 t1 m1
    where a: "in_cls (Lit (CHR ''#'')) x1" "m = x1 # m1"
      "re_match (One (Lit (CHR ''W'')) # [AtLeast 1 Digit]) (Some x1) t1 = Some m1"
    by blast
  from re_match_One_Some [OF a(3)] obtain x2 t2 m2
    where b: "in_cls (Lit (CHR ''W'')) x2" "m1 = x2 # m2"
      "re_match [AtLeast 1 Digit] (Some x2) t2 = Some m2"
    by blast
  have "m2 \<noteq> [] \<and> list_all isdigit_char m2"
    using b(3) by (rule digits_then_end) (rule pattern_end)
  moreover from a b have "m = ''#W'' @ m2"
    by simp
  ultimately show ?thesis using r by blast
next
  case None
  with assms obtain m where m: "re_search order_pattern_bare text = Some m" and r: "r = ''#'' @ m"
    by (auto simp: extract_order_number_from_text_def split: option.splits)
  from m obtain p t where "re_match order_pattern_bare p t = Some m"
    unfolding re_search_def by (blast dest: re_search_from_Some)
  then have "re_match (WordBoundary # One (Lit (CHR ''W'')) # AtLeast 1 Digit # [WordBoundary])
      p t = Some m"
    by (simp only: order_pattern_bare_def)
  from re_match_WordBoundary_Some [OF this]
  have "re_match (One (Lit (CHR ''W'')) # AtLeast 1 Digit # [WordBoundary]) p t = Some m" .
  from re_match_One_Some [OF this] obtain x2 t2 m2
    where b: "in_cls (Lit (CHR ''W'')) x2" "m = x2 # m2"
      "re_match (AtLeast 1 Digit # [WordBoundary]) (Some x2) t2 = Some m2"
    by blast
  have "m2 \<noteq> [] \<and> list_all isdigit_char m2"
    using b(3) by (rule digits_then_end) (rule boundary_end)
  moreover from b r have "r = ''#W'' @ m2"
    by simp
  ultimately show ?thesis by blast
qed

text \<open>
  C10. The text extractor turns \<open>W001\<close> into \<open>#W001\<close>, and with it the order of
  \<open>john.doe@example.com\<close> is found. When the coordinator sends the same token as the
  entity \<open>OrderNumber\<close>, the entity is used as it is: the lookup is made with \<open>W001\<close> and
  finds nothing, and on an empty state \<open>W001\<close> is what is stored.
\<close>

theorem entity_order_number_not_normalised:
  "extract_order_number_from_text ''W001'' = Some ''#W001''
   \<and> events (process loads_rejects model_down (agent_with_email ''john.doe@example.com'')
         (customer_message ''W001'' []))
       = [FindOrder ''john.doe@example.com'' ''#W001'' (Some order_W001), ClearState]
   \<and> events (process loads_rejects model_down (agent_with_email ''john.doe@example.com'')
         (customer_message ''W001'' [(''OrderNumber'', ''W001'')]))
       = [FindOrder ''john.doe@example.com'' ''W001'' None]
   \<and> state (manager (self_after (process loads_rejects model_down test_agent
         (customer_message ''W001'' [(''OrderNumber'', ''W001'')]))))
       = [(''order_number'', ''W001'')]"
  by code_simp


section \<open>Properties of the conversation memory\<close>

subsection \<open>The bounded history\<close>

lemma add_interaction_fields:
  "max_recent_interactions (add_interaction c mem) = max_recent_interactions mem"
  "conversation_context (add_interaction c mem)
     = update_context (interaction_of c) (conversation_context mem)"
  "recent_interactions (add_interaction c mem)
     = (if length (recent_interactions mem @ [interaction_of c]) > max_recent_interactions mem
        then slice_last (max_recent_interactions mem) (recent_interactions mem @ [interaction_of c])
        else recent_interactions mem @ [interaction_of c])"
  by (simp_all add: add_interaction_def Let_def)

lemma add_interactions_snoc:
  "add_interactions (cs @ [c]) mem = add_interaction c (add_interactions cs mem)"
  by (induction cs arbitrary: mem) simp_all

lemma add_interactions_max:
  "max_recent_interactions (add_interactions cs mem) = max_recent_interactions mem"
  by (induction cs arbitrary: mem) (simp_all add: add_interaction_fields)

lemma keep_last_five:
  "(if length (drop (length xs - 5) xs @ [y]) > 5
    then slice_last 5 (drop (length xs - 5) xs @ [y])
    else drop (length xs - 5) xs @ [y])
   = drop (length (xs @ [y]) - 5) (xs @ [y])"
proof (cases "5 \<le> length xs")
  case True
  then have "Suc (length xs - 5) = length xs - 4" and "Suc (length xs) - 5 = length xs - 4"
    by arith+
  with True show ?thesis by (simp add: slice_last_def)
next
  case False
  then show ?thesis by simp
qed

lemma recent_after_calls:
  assumes "max_recent_interactions mem = 5"
    and "cs \<noteq> [] \<or> length (recent_interactions mem) \<le> 5"
  shows "recent_interactions (add_interactions cs mem)
     = drop (length (recent_interactions mem @ map interaction_of cs) - 5)
         (recent_interactions mem @ map interaction_of cs)"
  using assms(2)
proof (induction cs rule: rev_induct)
  case Nil
  then show ?case by simp
next
  case (snoc c cs)
  show ?case
  proof (cases "cs = []")
    case True
    then show ?thesis
      using assms(1) by (simp add: add_interaction_fields slice_last_def)
  next
    case False
    with snoc.IH have ih: "recent_interactions (add_interactions cs mem)
       = drop (length (recent_interactions mem @ map interaction_of cs) - 5)
           (recent_interactions mem @ map interaction_of cs)"
      by simp
    have m: "max_recent_interactions (add_interactions cs mem) = 5"
      using assms(1) by (simp add: add_interactions_max)
    show ?thesis
      unfolding add_interactions_snoc add_interaction_fields m ih
      using keep_last_five [of "recent_interactions mem @ map interaction_of cs" "interaction_of c"]
      by simp
  qed
qed

lemma add_interactions_append:
  "add_interactions (xs @ ys) mem = add_interactions ys (add_interactions xs mem)"
  by (induction xs arbitrary: mem) simp_all

text \<open>
  C5. After any sequence of calls of \<open>add_interaction\<close> on a new memory, the history
  holds at most 5 turn records: the records of the last 5 calls, in the order of the calls.
  Each further call appends its record and, once 5 are held, drops the first, oldest one.
  What is kept depends on the order of insertion alone.
\<close>

theorem history_bounded_fifo:
  "length (recent_interactions (add_interactions cs new_conversation_memory)) \<le> 5
   \<and> recent_interactions (add_interactions cs new_conversation_memory)
       = drop (length cs - 5) (map interaction_of cs)
   \<and> recent_interactions (add_interaction c (add_interactions cs new_conversation_memory))
       = (if length cs < 5
          then recent_interactions (add_interactions cs new_conversation_memory)
               @ [interaction_of c]
          else tl (recent_interactions (add_interactions cs new_conversation_memory))
               @ [interaction_of c])"
proof -
  have n: "max_recent_interactions new_conversation_memory = 5"
    "recent_interactions new_conversation_memory = []"
    by (simp_all add: new_conversation_memory_def)
  have r: "\<And>ds. recent_interactions (add_interactions ds new_conversation_memory)
       = drop (length ds - 5) (map interaction_of ds)"
    using recent_after_calls [of new_conversation_memory] n by simp
  have s: "recent_interactions (add_interaction c (add_interactions cs new_conversation_memory))
       = drop (length (cs @ [c]) - 5) (map interaction_of (cs @ [c]))"
    using r [of "cs @ [c]"] by (simp only: add_interactions_snoc)
  have t: "drop (length (cs @ [c]) - 5) (map interaction_of (cs @ [c]))
       = (if length cs < 5 then drop (length cs - 5) (map interaction_of cs) @ [interaction_of c]
          else tl (drop (length cs - 5) (map interaction_of cs)) @ [interaction_of c])"
  proof (cases "length cs < 5")
    case True
    then show ?thesis by simp
  next
    case False
    then have k: "length (cs @ [c]) - 5 = Suc (length cs - 5)"
      by simp
    have "tl (drop (length cs - 5) (map interaction_of cs))
        = drop (Suc (length cs - 5)) (map interaction_of cs)"
      by (simp only: drop_Suc drop_tl)
    with False show ?thesis
      unfolding k by simp
  qed
  have b: "length (drop (length cs - 5) (map interaction_of cs)) \<le> 5"
    by simp
  show ?thesis
    unfolding r s t using b by simp
qed

theorem history_bounded_fifo_witness:
  "recent_interactions
     (add_interactions (order_lookup_call # small_talk) new_conversation_memory)
     = map interaction_of (drop 1 small_talk)
   \<and> length (recent_interactions
       (add_interactions (order_lookup_call # small_talk) new_conversation_memory)) = 5"
proof -
  have d: "drop (length (order_lookup_call # small_talk) - 5)
        (map interaction_of (order_lookup_call # small_talk))
      = map interaction_of (drop 1 small_talk)"
    by (simp add: small_talk_def)
  have l: "length (map interaction_of (drop 1 small_talk)) = 5"
    by (simp add: small_talk_def)
  show ?thesis
    using history_bounded_fifo [of "order_lookup_call # small_talk"] d l by simp
qed

subsection \<open>The context snapshot\<close>

text \<open>\<open>_update_context\<close> changes the keys it assigns and no other, and a key it assigns
  holds a value afterwards.\<close>

lemma update_context_keys:
  "(k \<notin> set (assigned_keys i) \<longrightarrow> map_of (update_context i ctx) k = map_of ctx k) \<and>
   (k \<in> set (assigned_keys i) \<longrightarrow> map_of (update_context i ctx) k \<noteq> None)"
proof -
  define em where "em \<longleftrightarrow> py_true (dict_get (entities i) ''Email'')"
  define os where "os \<longleftrightarrow> intent i = ''ORDER_STATUS'' \<and> key_info i \<noteq> []"
  define pr where "pr \<longleftrightarrow> intent i = ''PRODUCT_RECOMMENDATION'' \<and> key_info i \<noteq> []"
  define er where "er \<longleftrightarrow> intent i = ''EARLY_RISERS_PROMOTION'' \<and> key_info i \<noteq> []"
  define p1 where "p1 \<longleftrightarrow> py_true (dict_get (key_info i) ''products'')"
  define p2 where "p2 \<longleftrightarrow> py_true (dict_get (key_info i) ''products_mentioned'')"
  define p3 where "p3 \<longleftrightarrow> py_true (dict_get (key_info i) ''promo_code'')"
  note defs = em_def os_def pr_def er_def p1_def p2_def p3_def
  have u: "update_context i ctx =
     (let ctx1 = (if em then AList.update ''customer_email'' (dict_get (entities i) ''Email'') ctx
                  else ctx)
      in if os then
          (let order_info =
                 PDict [(''order_number'', dict_get (key_info i) ''order_number''),
                        (''customer_name'', dict_get (key_info i) ''customer_name''),
                        (''products'', dict_get_default (key_info i) ''products'' (PList [])),
                        (''status'', dict_get (key_info i) ''status''),
                        (''last_checked'', PStr (timestamp i))];
               ctx2 = AList.update ''last_order_lookup'' order_info ctx1
           in if p1 then AList.update ''recent_products'' (dict_get (key_info i) ''products'') ctx2
              else ctx2)
        else if pr then
          (if p2 then AList.update ''recent_products'' (dict_get (key_info i) ''products_mentioned'') ctx1
           else ctx1)
        else if er then
          (if p3 then AList.update ''last_promo_code'' (dict_get (key_info i) ''promo_code'') ctx1
           else ctx1)
        else ctx1)"
    unfolding update_context_def defs by (rule refl)
  have a: "assigned_keys i =
     (if em then [''customer_email''] else [])
     @ (if os then ''last_order_lookup'' # (if p1 then [''recent_products''] else [])
        else if pr then (if p2 then [''recent_products''] else [])
        else if er then (if p3 then [''last_promo_code''] else [])
        else [])"
    unfolding assigned_keys_def defs by (rule refl)
  show ?thesis
    unfolding u a Let_def
    by (cases em; cases os; cases pr; cases er; cases p1; cases p2; cases p3)
       (simp_all add: update_conv')
qed

lemma update_context_frame:
  "k \<notin> set (assigned_keys i) \<Longrightarrow> map_of (update_context i ctx) k = map_of ctx k"
  using update_context_keys [of k i ctx] by simp

lemma update_context_assigned:
  "k \<in> set (assigned_keys i) \<Longrightarrow> map_of (update_context i ctx) k \<noteq> None"
  using update_context_keys [of k i ctx] by simp


lemma assigned_keys_members:
  "''customer_email'' \<in> set (assigned_keys i) \<longleftrightarrow> py_true (dict_get (entities i) ''Email'')"
  "''last_order_lookup'' \<in> set (assigned_keys i) \<longleftrightarrow> intent i = ''ORDER_STATUS'' \<and> key_info i \<noteq> []"
  "''recent_products'' \<in> set (assigned_keys i) \<Longrightarrow>
     py_true (dict_get (key_info i) ''products'')
     \<or> py_true (dict_get (key_info i) ''products_mentioned'')"
  "''last_promo_code'' \<in> set (assigned_keys i) \<Longrightarrow> py_true (dict_get (key_info i) ''promo_code'')"
proof -
  define em where "em \<longleftrightarrow> py_true (dict_get (entities i) ''Email'')"
  define os where "os \<longleftrightarrow> intent i = ''ORDER_STATUS'' \<and> key_info i \<noteq> []"
  define pr where "pr \<longleftrightarrow> intent i = ''PRODUCT_RECOMMENDATION'' \<and> key_info i \<noteq> []"
  define er where "er \<longleftrightarrow> intent i = ''EARLY_RISERS_PROMOTION'' \<and> key_info i \<noteq> []"
  define p1 where "p1 \<longleftrightarrow> py_true (dict_get (key_info i) ''products'')"
  define p2 where "p2 \<longleftrightarrow> py_true (dict_get (key_info i) ''products_mentioned'')"
  define p3 where "p3 \<longleftrightarrow> py_true (dict_get (key_info i) ''promo_code'')"
  note defs = em_def os_def pr_def er_def p1_def p2_def p3_def
  have a: "assigned_keys i =
     (if em then [''customer_email''] else [])
     @ (if os then ''last_order_lookup'' # (if p1 then [''recent_products''] else [])
        else if pr then (if p2 then [''recent_products''] else [])
        else if er then (if p3 then [''last_promo_code''] else [])
        else [])"
    unfolding assigned_keys_def defs by (rule refl)
  show "''customer_email'' \<in> set (assigned_keys i) \<longleftrightarrow> py_true (dict_get (entities i) ''Email'')"
    unfolding a em_def [symmetric] by simp
  show "''last_order_lookup'' \<in> set (assigned_keys i) \<longleftrightarrow> intent i = ''ORDER_STATUS'' \<and> key_info i \<noteq> []"
    unfolding a os_def [symmetric] by simp
  show "''recent_products'' \<in> set (assigned_keys i) \<Longrightarrow>
     py_true (dict_get (key_info i) ''products'')
     \<or> py_true (dict_get (key_info i) ''products_mentioned'')"
    unfolding a p1_def [symmetric] p2_def [symmetric] by (simp split: if_splits)
  show "''last_promo_code'' \<in> set (assigned_keys i) \<Longrightarrow> py_true (dict_get (key_info i) ''promo_code'')"
    unfolding a p3_def [symmetric] by (simp split: if_splits)
qed

lemma order_lookup_replaced:
  assumes "intent i = ''ORDER_STATUS'' \<and> key_info i \<noteq> []"
  shows "map_of (update_context i ctx) ''last_order_lookup'' =
     Some (PDict [(''order_number'', dict_get (key_info i) ''order_number''),
                  (''customer_name'', dict_get (key_info i) ''customer_name''),
                  (''products'', dict_get_default (key_info i) ''products'' (PList [])),
                  (''status'', dict_get (key_info i) ''status''),
                  (''last_checked'', PStr (timestamp i))])"
  using assms unfolding update_context_def Let_def
  by (simp add: update_conv')

lemma context_after_calls:
  "\<forall>j \<in> set js. k \<notin> set (assigned_keys (interaction_of j)) \<Longrightarrow>
   map_of (conversation_context (add_interactions js mem)) k = map_of (conversation_context mem) k"
  by (induction js arbitrary: mem) (simp_all add: add_interaction_fields update_context_frame)

text \<open>
  C6. A key of the context that the record of a call assigns holds its value after that
  call and keeps it, readable through \<open>get_full_context\<close>, over every later sequence of
  calls whose records do not assign the key, also when these are 5 or more, so that the
  history holds later records only and the record that set the value is gone from it. The
  context after a call is computed from the context before it and the new record alone.
\<close>

theorem snapshot_outlives_history:
  fixes pre js :: "add_call list" and c :: add_call and k :: string
  defines "at_k \<equiv> add_interaction c (add_interactions pre new_conversation_memory)"
  assumes "k \<in> set (assigned_keys (interaction_of c))"
    and "\<forall>j \<in> set js. k \<notin> set (assigned_keys (interaction_of j))"
  shows "map_of (conversation_context at_k) k \<noteq> None
     \<and> map_of (conversation_context (add_interactions js at_k)) k
         = map_of (conversation_context at_k) k
     \<and> map_of (fst (get_full_context (add_interactions js at_k))) k
         = map_of (conversation_context at_k) k
     \<and> (5 \<le> length js \<longrightarrow>
          recent_interactions (add_interactions js at_k)
            = map interaction_of (drop (length js - 5) js))
     \<and> conversation_context (add_interaction d (add_interactions js at_k))
         = update_context (interaction_of d) (conversation_context (add_interactions js at_k))"
proof -
  have a: "map_of (conversation_context at_k) k \<noteq> None"
    unfolding at_k_def using assms(2) by (simp add: add_interaction_fields update_context_assigned)
  have b: "map_of (conversation_context (add_interactions js at_k)) k
         = map_of (conversation_context at_k) k"
    using assms(3) by (rule context_after_calls)
  have e: "add_interactions js at_k = add_interactions (pre @ c # js) new_conversation_memory"
    unfolding at_k_def by (simp add: add_interactions_append)
  have r: "recent_interactions (add_interactions js at_k)
       = drop (length (pre @ c # js) - 5) (map interaction_of (pre @ c # js))"
    unfolding e using recent_after_calls [of new_conversation_memory "pre @ c # js"]
    by (simp add: new_conversation_memory_def)
  have "5 \<le> length js \<longrightarrow>
          recent_interactions (add_interactions js at_k)
            = map interaction_of (drop (length js - 5) js)"
  proof
    assume l: "5 \<le> length js"
    then have "length (pre @ c # js) - 5 = length (pre @ [c]) + (length js - 5)"
      by simp
    then have "drop (length (pre @ c # js) - 5) (map interaction_of (pre @ c # js))
        = drop (length (pre @ [c]) + (length js - 5))
            (map interaction_of (pre @ [c]) @ map interaction_of js)"
      by simp
    also have "\<dots> = drop (length js - 5) (map interaction_of js)"
      by (simp only: drop_append length_map) simp
    finally show "recent_interactions (add_interactions js at_k)
            = map interaction_of (drop (length js - 5) js)"
      using r by (simp add: drop_map)
  qed
  with a b show ?thesis
    by (simp add: add_interaction_fields get_full_context_def)
qed

theorem snapshot_outlives_history_witness:
  "''last_order_lookup'' \<in> set (assigned_keys (interaction_of order_lookup_call))
   \<and> list_all (\<lambda>j. ''last_order_lookup'' \<notin> set (assigned_keys (interaction_of j))) small_talk
   \<and> 5 \<le> length small_talk
   \<and> map_of (conversation_context
        (add_interactions small_talk (add_interaction order_lookup_call
           (add_interactions [] new_conversation_memory)))) ''last_order_lookup''
       = Some (PDict [(''order_number'', PStr ''#W007''),
                      (''customer_name'', PStr ''Ethan Harris''),
                      (''products'', PList [PStr ''SOBP001'', PStr ''SOSB006'']),
                      (''status'', PStr ''fulfilled''),
                      (''last_checked'', PStr ''2025-01-01T10:00:00'')])
   \<and> recent_interactions
        (add_interactions small_talk (add_interaction order_lookup_call
           (add_interactions [] new_conversation_memory)))
       = map interaction_of (drop (length small_talk - 5) small_talk)
   \<and> interaction_of order_lookup_call
       \<notin> set (map interaction_of (drop (length small_talk - 5) small_talk))"
proof -
  have h1: "''last_order_lookup'' \<in> set (assigned_keys (interaction_of order_lookup_call))"
    by code_simp
  have h2: "\<forall>j \<in> set small_talk. ''last_order_lookup'' \<notin> set (assigned_keys (interaction_of j))"
    by code_simp
  have h3: "5 \<le> length small_talk"
    by code_simp
  have v: "map_of (conversation_context (add_interaction order_lookup_call
           (add_interactions [] new_conversation_memory))) ''last_order_lookup''
       = Some (PDict [(''order_number'', PStr ''#W007''),
                      (''customer_name'', PStr ''Ethan Harris''),
                      (''products'', PList [PStr ''SOBP001'', PStr ''SOSB006'']),
                      (''status'', PStr ''fulfilled''),
                      (''last_checked'', PStr ''2025-01-01T10:00:00'')])"
    by code_simp
  have e: "interaction_of order_lookup_call
       \<notin> set (map interaction_of (drop (length small_talk - 5) small_talk))"
    by code_simp
  note t = snapshot_outlives_history [OF h1 h2, of "[]"]
  from t have a: "map_of (conversation_context
        (add_interactions small_talk (add_interaction order_lookup_call
           (add_interactions [] new_conversation_memory)))) ''last_order_lookup''
      = map_of (conversation_context (add_interaction order_lookup_call
           (add_interactions [] new_conversation_memory))) ''last_order_lookup''"
    by blast
  from t h3 have b: "recent_interactions
        (add_interactions small_talk (add_interaction order_lookup_call
           (add_interactions [] new_conversation_memory)))
       = map interaction_of (drop (length small_talk - 5) small_talk)"
    by blast
  have h2': "list_all (\<lambda>j. ''last_order_lookup'' \<notin> set (assigned_keys (interaction_of j)))
      small_talk"
    using h2 by (simp only: list_all_iff)
  show ?thesis
    using h1 h2' h3 a v b e by (simp only: simp_thms)
qed

text \<open>The assignments of \<open>_update_context\<close> that test the value they read leave their
  key as it was when the new record does not supply the value: \<open>customer_email\<close>,
  \<open>recent_products\<close> and \<open>last_promo_code\<close>. \<open>last_order_lookup\<close> is left as it was
  only by a record that is not an order-status record with a non-empty \<open>key_info\<close>.\<close>

lemma guarded_keys_keep_value:
  fixes c :: add_call and mem :: conversation_memory
  defines "i \<equiv> interaction_of c"
    and "before \<equiv> conversation_context mem"
    and "after \<equiv> conversation_context (add_interaction c mem)"
  shows "(\<not> py_true (dict_get (entities i) ''Email'') \<longrightarrow>
            map_of after ''customer_email'' = map_of before ''customer_email'')
     \<and> (\<not> py_true (dict_get (key_info i) ''products'')
          \<and> \<not> py_true (dict_get (key_info i) ''products_mentioned'') \<longrightarrow>
            map_of after ''recent_products'' = map_of before ''recent_products'')
     \<and> (\<not> py_true (dict_get (key_info i) ''promo_code'') \<longrightarrow>
            map_of after ''last_promo_code'' = map_of before ''last_promo_code'')
     \<and> (\<not> (intent i = ''ORDER_STATUS'' \<and> key_info i \<noteq> []) \<longrightarrow>
            map_of after ''last_order_lookup'' = map_of before ''last_order_lookup'')"
proof -
  have a: "after = update_context i before"
    unfolding after_def before_def i_def by (simp add: add_interaction_fields)
  have e: "\<not> py_true (dict_get (entities i) ''Email'') \<longrightarrow>
            map_of after ''customer_email'' = map_of before ''customer_email''"
    unfolding a using assigned_keys_members(1) [of i] update_context_frame by blast
  have p: "\<not> py_true (dict_get (key_info i) ''products'')
          \<and> \<not> py_true (dict_get (key_info i) ''products_mentioned'') \<longrightarrow>
            map_of after ''recent_products'' = map_of before ''recent_products''"
    unfolding a using assigned_keys_members(3) [of i] update_context_frame by blast
  have q: "\<not> py_true (dict_get (key_info i) ''promo_code'') \<longrightarrow>
            map_of after ''last_promo_code'' = map_of before ''last_promo_code''"
    unfolding a using assigned_keys_members(4) [of i] update_context_frame by blast
  have l: "\<not> (intent i = ''ORDER_STATUS'' \<and> key_info i \<noteq> []) \<longrightarrow>
            map_of after ''last_order_lookup'' = map_of before ''last_order_lookup''"
    unfolding a using assigned_keys_members(2) [of i] update_context_frame by blast
  from e p q l show ?thesis by blast
qed

text \<open>
  C7. A call of \<open>add_interaction\<close> is to leave a category of the context as it was when
  the \<open>key_info\<close> of the new record does not supply it, and never to overwrite it with
  null or placeholder values. After the lookup of order \<open>#W007\<close>, the record of an
  order-status turn whose \<open>key_info\<close> holds the entities only (no order number, customer
  name, products or status) leaves \<open>recent_products\<close> as it was, but \<open>last_order_lookup\<close>
  is overwritten: its order number, customer name and status become \<open>None\<close> and its
  products the empty list.
\<close>

theorem order_lookup_overwritten_with_nulls:
  "map_of (conversation_context (add_interaction order_lookup_call new_conversation_memory))
       ''last_order_lookup''
     = Some (PDict [(''order_number'', PStr ''#W007''),
                    (''customer_name'', PStr ''Ethan Harris''),
                    (''products'', PList [PStr ''SOBP001'', PStr ''SOSB006'']),
                    (''status'', PStr ''fulfilled''),
                    (''last_checked'', PStr ''2025-01-01T10:00:00'')])
   \<and> map_of (key_info (interaction_of email_in_sentence_call)) ''order_number'' = None
   \<and> map_of (key_info (interaction_of email_in_sentence_call)) ''customer_name'' = None
   \<and> map_of (key_info (interaction_of email_in_sentence_call)) ''products'' = None
   \<and> map_of (key_info (interaction_of email_in_sentence_call)) ''status'' = None
   \<and> map_of (conversation_context (add_interaction email_in_sentence_call
          (add_interaction order_lookup_call new_conversation_memory))) ''last_order_lookup''
     = Some (PDict [(''order_number'', PNone),
                    (''customer_name'', PNone),
                    (''products'', PList []),
                    (''status'', PNone),
                    (''last_checked'', PStr ''2025-01-01T10:05:00'')])
   \<and> map_of (conversation_context (add_interaction email_in_sentence_call
          (add_interaction order_lookup_call new_conversation_memory))) ''recent_products''
     = Some (PList [PStr ''SOBP001'', PStr ''SOSB006''])"
  by code_simp

end
